theory Spec2Isabelle
  imports Main "HOL-Library.Word"
begin

section \<open>JavaScript strings\<close>

text \<open>
  A JavaScript string is a sequence of UTF-16 code units and \<open>length\<close> counts code
  units, so a string is a list of 16-bit words. \<open>lit\<close> embeds the ASCII literals of the
  sources.
\<close>

type_synonym code_unit = "16 word"
type_synonym jsstring = "code_unit list"

definition lit :: "string \<Rightarrow> jsstring" where
  "lit s = map (\<lambda>c. of_char c) s"

text \<open>
  \<open>String.prototype.trim\<close> strips the WhiteSpace and LineTerminator code points of
  ECMAScript from both ends; all of them are single code units.
\<close>

definition isWhiteSpace :: "code_unit \<Rightarrow> bool" where
  "isWhiteSpace c \<longleftrightarrow>
     c = 0x0009 \<or> c = 0x000A \<or> c = 0x000B \<or> c = 0x000C \<or> c = 0x000D \<or> c = 0x0020 \<or>
     c = 0x00A0 \<or> c = 0x1680 \<or> (0x2000 \<le> c \<and> c \<le> 0x200A) \<or> c = 0x2028 \<or>
     c = 0x2029 \<or> c = 0x202F \<or> c = 0x205F \<or> c = 0x3000 \<or> c = 0xFEFF"

definition trim :: "jsstring \<Rightarrow> jsstring" where
  "trim s = rev (dropWhile isWhiteSpace (rev (dropWhile isWhiteSpace s)))"

text \<open>
  Truthiness, as \<open>||\<close>, \<open>!!\<close> and \<open>if (x)\<close> read it: \<open>undefined\<close>, \<open>null\<close>, the
  empty string and the number 0 are falsy. An optional value is an \<open>option\<close>.
\<close>

definition truthy :: "jsstring option \<Rightarrow> bool" where
  "truthy x = (case x of None \<Rightarrow> False | Some s \<Rightarrow> s \<noteq> [])"

definition or_else :: "jsstring option \<Rightarrow> jsstring option \<Rightarrow> jsstring option" where
  "or_else x y = (if truthy x then x else y)"

definition or_default :: "jsstring \<Rightarrow> jsstring \<Rightarrow> jsstring" where
  \<comment> \<open>\<open>a || b\<close> on two strings\<close>
  "or_default a b = (if a \<noteq> [] then a else b)"

definition toString_bool :: "bool \<Rightarrow> jsstring" where
  "toString_bool b = (if b then lit ''true'' else lit ''false'')"


section \<open>types/api.ts\<close>

record File =
  file_name :: jsstring
  file_size :: nat
  file_type :: jsstring

record RedactionRequest =
  req_file :: File
  prompt :: "jsstring option"
  preview_only :: "bool option"

record RedactionResponse =
  rr_job_id :: jsstring
  success :: bool
  rr_message :: jsstring
  rr_preview_text :: "jsstring option"
  rr_entities_detected :: nat

datatype JobStatus = pending | processing | completed | failed

record JobResult =
  redacted_file_url :: "jsstring option"
  preview_text :: "jsstring option"
  entities_detected :: nat

record JobStatusResponse =
  job_id :: jsstring
  status :: JobStatus
  progress :: int
  result :: "JobResult option"
  error :: "jsstring option"

record ErrorResponse =
  detail :: "jsstring option"
  status_code :: "nat option"


section \<open>lib/api.ts: the Transport Client\<close>

text \<open>
  What the HTTP library hands to the rejection handler: \<open>error.response\<close> is absent when
  no response was received; the handler reads the body through \<open>data?.detail\<close>, so the
  body and its \<open>detail\<close> may be absent too.
\<close>

record AxiosResponse =
  resp_status :: nat
  resp_data :: "ErrorResponse option"

record AxiosError =
  response :: "AxiosResponse option"
  axios_message :: jsstring

record customError =
  message :: jsstring
  error_status :: nat
  originalError :: AxiosError

definition response_detail :: "AxiosError \<Rightarrow> jsstring option" where
  \<comment> \<open>\<open>error.response?.data?.detail\<close>\<close>
  "response_detail e =
     (case response e of None \<Rightarrow> None
      | Some r \<Rightarrow> (case resp_data r of None \<Rightarrow> None | Some d \<Rightarrow> detail d))"

definition response_status :: "AxiosError \<Rightarrow> nat option" where
  \<comment> \<open>\<open>error.response?.status\<close>\<close>
  "response_status e = (case response e of None \<Rightarrow> None | Some r \<Rightarrow> Some (resp_status r))"

definition onRejected :: "AxiosError \<Rightarrow> customError" where
  \<comment> \<open>the second argument of \<open>interceptors.response.use\<close> in \<open>setupInterceptors\<close>\<close>
  "onRejected e =
     \<lparr> message =
         (case or_else (or_else (response_detail e) (Some (axios_message e)))
                 (Some (lit ''An error occurred'')) of
            Some m \<Rightarrow> m | None \<Rightarrow> []),
       error_status =
         (case response_status e of
            Some n \<Rightarrow> (if n \<noteq> 0 then n else 500)
          | None \<Rightarrow> 500),
       originalError = e \<rparr>"

datatype form_value = FileValue File | StringValue jsstring

type_synonym FormData = "(jsstring \<times> form_value) list"

definition append :: "FormData \<Rightarrow> jsstring \<Rightarrow> form_value \<Rightarrow> FormData" where
  "append fd k v = fd @ [(k, v)]"

datatype http_method = GET | POST

record HttpRequest =
  http_method :: http_method
  url :: jsstring
  form :: "FormData option"

text \<open>
  The configured client: the request interceptor returns the configuration as it is, the
  response interceptor passes a response through and turns a failure into a
  \<open>customError\<close>. The adapter is the network: it answers a request with a failure or
  with the body of a response.
\<close>

definition client :: "(HttpRequest \<Rightarrow> AxiosError + 'a) \<Rightarrow> HttpRequest \<Rightarrow> customError + 'a" where
  "client adapter req =
     (case adapter req of Inl e \<Rightarrow> Inl (onRejected e) | Inr resp \<Rightarrow> Inr resp)"

definition answering :: "'r \<Rightarrow> HttpRequest \<Rightarrow> 'r" where
  \<comment> \<open>the network that gives this answer to the request it is sent\<close>
  "answering a req = a"

definition uploadFile_request :: "File \<Rightarrow> HttpRequest" where
  "uploadFile_request f =
     \<lparr> http_method = POST, url = lit ''/upload'',
       form = Some (append [] (lit ''file'') (FileValue f)) \<rparr>"

definition uploadFile :: "(HttpRequest \<Rightarrow> AxiosError + 'a) \<Rightarrow> File \<Rightarrow> customError + 'a" where
  "uploadFile adapter f = client adapter (uploadFile_request f)"

definition processDocument_form :: "RedactionRequest \<Rightarrow> FormData" where
  "processDocument_form request =
     (let formData = append [] (lit ''file'') (FileValue (req_file request));
          formData = (case prompt request of
                        Some p \<Rightarrow> (if p \<noteq> [] then append formData (lit ''prompt'') (StringValue p)
                                   else formData)
                      | None \<Rightarrow> formData);
          formData = (case preview_only request of
                        Some b \<Rightarrow> append formData (lit ''preview_only'') (StringValue (toString_bool b))
                      | None \<Rightarrow> formData)
      in formData)"

definition processDocument_request :: "RedactionRequest \<Rightarrow> HttpRequest" where
  "processDocument_request request =
     \<lparr> http_method = POST, url = lit ''/redact'', form = Some (processDocument_form request) \<rparr>"

definition processDocument ::
  "(HttpRequest \<Rightarrow> AxiosError + 'a) \<Rightarrow> RedactionRequest \<Rightarrow> customError + 'a" where
  "processDocument adapter request = client adapter (processDocument_request request)"

definition getJobStatus_request :: "jsstring \<Rightarrow> HttpRequest" where
  "getJobStatus_request jobId =
     \<lparr> http_method = GET, url = lit ''/job/'' @ jobId @ lit ''/status'', form = None \<rparr>"

definition getJobStatus :: "(HttpRequest \<Rightarrow> AxiosError + 'a) \<Rightarrow> jsstring \<Rightarrow> customError + 'a" where
  "getJobStatus adapter jobId = client adapter (getJobStatus_request jobId)"

definition downloadResult_request :: "jsstring \<Rightarrow> HttpRequest" where
  "downloadResult_request jobId =
     \<lparr> http_method = GET, url = lit ''/job/'' @ jobId @ lit ''/download'', form = None \<rparr>"

definition downloadResult :: "(HttpRequest \<Rightarrow> AxiosError + 'a) \<Rightarrow> jsstring \<Rightarrow> customError + 'a" where
  "downloadResult adapter jobId = client adapter (downloadResult_request jobId)"

section \<open>hooks/useApi.ts\<close>

text \<open>
  The options \<open>useJobStatus\<close> passes to \<open>useQuery\<close>. The query key is
  \<open>['job-status', jobId]\<close>; the query function asserts the id with \<open>jobId!\<close>, and a
  \<open>null\<close> id would be written into the path as \<open>null\<close>. \<open>refetchInterval\<close> answers
  \<open>false\<close> (here \<open>None\<close>) or a delay in milliseconds.

  The callback names its parameter \<open>data\<close> and reads \<open>data?.status\<close>. What it is handed
  is the library's choice: the last snapshot (if any), or the library's Query object, which
  keeps the snapshot under \<open>state.data\<close> and has no property \<open>status\<close>, so that the
  read gives \<open>undefined\<close>.
\<close>

datatype refetch_arg =
    Snapshot "JobStatusResponse option"
  | QueryObject "JobStatusResponse option"

definition status_of :: "refetch_arg \<Rightarrow> JobStatus option" where
  \<comment> \<open>\<open>data?.status\<close>\<close>
  "status_of a =
     (case a of
        Snapshot None \<Rightarrow> None
      | Snapshot (Some d) \<Rightarrow> Some (status d)
      | QueryObject d \<Rightarrow> None)"

record UseQueryOptions =
  queryKey :: "jsstring option"
  queryFn :: HttpRequest
  enabled :: bool
  refetchInterval :: "refetch_arg \<Rightarrow> nat option"
  retry :: nat

definition jobStatus_refetchInterval :: "refetch_arg \<Rightarrow> nat option" where
  "jobStatus_refetchInterval data =
     (if status_of data = Some completed \<or> status_of data = Some failed
      then None
      else Some 2000)"

definition useJobStatus :: "jsstring option \<Rightarrow> bool \<Rightarrow> UseQueryOptions" where
  "useJobStatus jobId en =
     \<lparr> queryKey = jobId,
       queryFn = getJobStatus_request (case jobId of Some j \<Rightarrow> j | None \<Rightarrow> lit ''null''),
       enabled = (en \<and> truthy jobId),
       refetchInterval = jobStatus_refetchInterval,
       retry = 3 \<rparr>"

text \<open>
  \<open>useDownloadResult\<close>: on success the browser makes an object URL for the blob
  (\<open>createURL\<close> is the browser's choice of that string), an anchor carrying it is appended
  to the document, clicked and removed, and the URL is revoked; on failure the error is
  written to the console.
\<close>

record anchor =
  href :: jsstring
  download :: jsstring

datatype 'b dom_effect =
    createObjectURL 'b
  | appendChild anchor
  | click anchor
  | revokeObjectURL jsstring
  | removeChild anchor
  | console_error customError

definition download_onSuccess :: "('b \<Rightarrow> jsstring) \<Rightarrow> 'b \<Rightarrow> jsstring \<Rightarrow> 'b dom_effect list" where
  "download_onSuccess createURL blob jobId =
     (let url = createURL blob;
          a = \<lparr> href = url, download = lit ''redacted-document-'' @ jobId @ lit ''.txt'' \<rparr>
      in [createObjectURL blob, appendChild a, click a, revokeObjectURL url, removeChild a])"

definition useDownloadResult ::
  "(HttpRequest \<Rightarrow> AxiosError + 'b) \<Rightarrow> ('b \<Rightarrow> jsstring) \<Rightarrow> jsstring \<Rightarrow> 'b dom_effect list" where
  "useDownloadResult adapter createURL jobId =
     (case downloadResult adapter jobId of
        Inr blob \<Rightarrow> download_onSuccess createURL blob jobId
      | Inl err \<Rightarrow> [console_error err])"

section \<open>The Job Poller: how the query library runs these options\<close>

text \<open>
  \<open>useQuery\<close> belongs to the query library, which is not part of the sources; the
  repository only chooses its options. The components read \<open>isPending\<close> from the results
  of their mutations, which the library provides from its version 5 on, and the poller below
  runs the options the way that version does, with the state names of the specification
  (Idle, Polling, Succeeded, Failed):
  \<^item> a query is started only while \<open>enabled\<close> holds, and one query is in flight at a time;
  \<^item> whenever the state of the query changes and \<open>enabled\<close> holds, \<open>refetchInterval\<close> is
    asked for the delay of the refetch timer, and it is handed the Query object; when the
    timer fires and no query is in flight, a new query is started;
  \<^item> a failed query is sent again while the number of failures so far is below \<open>retry\<close>
    (the pause before a retry is not modelled), whether or not \<open>enabled\<close> still holds; the
    failure that finds the budget used up is reported; a new query starts with no failures;
  \<^item> snapshots are cached by query key, and neither disabling the query nor changing the key
    removes one; changing the key abandons the query in flight for the old key.
\<close>

datatype failure = JobFailed "jsstring option" | RetriesExhausted customError

datatype phase = Idle | Polling | Succeeded | Failed failure

record poller =
  options :: UseQueryOptions
  cache :: "jsstring option \<Rightarrow> JobStatusResponse option"
  phase :: phase
  fetching :: bool
  failureCount :: nat
  timer :: "nat option"
  issued :: "HttpRequest list"

datatype poll_event = Response "customError + JobStatusResponse" | TimerFired

definition snapshot :: "poller \<Rightarrow> JobStatusResponse option" where
  "snapshot p = cache p (queryKey (options p))"

definition fetch :: "poller \<Rightarrow> poller" where
  \<comment> \<open>a new query\<close>
  "fetch p =
     p\<lparr> fetching := True, failureCount := 0, issued := issued p @ [queryFn (options p)] \<rparr>"

definition arm :: "poller \<Rightarrow> poller" where
  \<comment> \<open>the refetch timer is set again from what the callback answers\<close>
  "arm p =
     p\<lparr> timer := (if enabled (options p)
                   then refetchInterval (options p) (QueryObject (snapshot p))
                   else None) \<rparr>"

definition mount :: "UseQueryOptions \<Rightarrow> poller" where
  "mount opts =
     (let p = \<lparr> options = opts, cache = (\<lambda>k. None), phase = Idle, fetching = False,
                 failureCount = 0, timer = None, issued = [] \<rparr>
      in if enabled opts then arm (fetch (p\<lparr> phase := Polling \<rparr>)) else p)"

definition setOptions :: "poller \<Rightarrow> UseQueryOptions \<Rightarrow> poller" where
  \<comment> \<open>the hook is called again, with the same or with other arguments\<close>
  "setOptions p opts =
     (let same = (queryKey opts = queryKey (options p));
          q = p\<lparr> options := opts, timer := None, fetching := (same \<and> fetching p),
                failureCount := (if same then failureCount p else 0) \<rparr>
      in if \<not> enabled opts then q\<lparr> phase := Idle \<rparr>
         else if same \<and> enabled (options p) then arm (p\<lparr> options := opts \<rparr>)
         else if fetching q then arm (q\<lparr> phase := Polling \<rparr>)
         else arm (fetch (q\<lparr> phase := Polling \<rparr>)))"

definition onSuccess :: "poller \<Rightarrow> JobStatusResponse \<Rightarrow> poller" where
  "onSuccess p d =
     (let q = p\<lparr> fetching := False, failureCount := 0,
                cache := (cache p)(queryKey (options p) := Some d) \<rparr>
      in if \<not> enabled (options p) then q
         else arm (q\<lparr> phase := (case status d of
                                    completed \<Rightarrow> Succeeded
                                  | failed \<Rightarrow> Failed (JobFailed (error d))
                                  | _ \<Rightarrow> Polling) \<rparr>))"

definition onError :: "poller \<Rightarrow> customError \<Rightarrow> poller" where
  "onError p e =
     (if failureCount p < retry (options p)
      then p\<lparr> failureCount := Suc (failureCount p),
              issued := issued p @ [queryFn (options p)] \<rparr>
      else arm (p\<lparr> fetching := False,
                   phase := (if enabled (options p) then Failed (RetriesExhausted e)
                             else phase p) \<rparr>))"

fun step :: "poller \<Rightarrow> poll_event \<Rightarrow> poller" where
  "step p (Response r) =
     (if \<not> fetching p then p
      else (case r of Inr d \<Rightarrow> onSuccess p d | Inl e \<Rightarrow> onError p e))"
| "step p TimerFired =
     (case timer p of
        None \<Rightarrow> p
      | Some ms \<Rightarrow> (if \<not> enabled (options p) then p\<lparr> timer := None \<rparr>
                   else if fetching p then p
                   else fetch p))"

definition run :: "poller \<Rightarrow> poll_event list \<Rightarrow> poller" where
  "run p evs = foldl step p evs"

text \<open>
  The life of the hook: it is mounted with its arguments, and then it is called again with
  arguments (\<open>Render\<close>) or the poller meets an event.
\<close>

datatype hook_event = Render "jsstring option" bool | Poll poll_event

fun hook_step :: "poller \<Rightarrow> hook_event \<Rightarrow> poller" where
  "hook_step p (Render jobId en) = setOptions p (useJobStatus jobId en)"
| "hook_step p (Poll ev) = step p ev"

definition hook_run :: "jsstring option \<Rightarrow> bool \<Rightarrow> hook_event list \<Rightarrow> poller" where
  "hook_run jobId en evs = foldl hook_step (mount (useJobStatus jobId en)) evs"

section \<open>components/FileUpload.tsx\<close>

record UploadedFile =
  uf_file :: File
  uf_id :: jsstring

datatype toast = toast_error jsstring | toast_success jsstring

text \<open>
  The state of the component (\<open>uploadedFile\<close>, \<open>prompt\<close>, \<open>jobId\<close>) together with what
  it has shown and sent: the toasts raised and the requests handed to the Transport Client.
\<close>

record FileUpload =
  uploadedFile :: "UploadedFile option"
  prompt_state :: jsstring
  jobId :: "jsstring option"
  toasts :: "toast list"
  network :: "HttpRequest list"

definition maxSize :: nat where
  "maxSize = 50 * 1024 * 1024"

definition allowedTypes :: "jsstring list" where
  "allowedTypes =
     [lit ''text/plain'',
      lit ''application/pdf'',
      lit ''application/vnd.openxmlformats-officedocument.wordprocessingml.document'',
      lit ''image/png'',
      lit ''image/jpeg'',
      lit ''image/jpg'']"

definition too_large_message :: jsstring where
  "too_large_message = lit ''File size must be less than 50MB''"

definition unsupported_message :: jsstring where
  "unsupported_message =
     lit ''Unsupported file type. Please upload .txt, .pdf, .docx, or image files.''"

definition ready_message :: "File \<Rightarrow> jsstring" where
  \<comment> \<open>the file name stands between two double quotes (code unit 0x22)\<close>
  "ready_message f = lit ''File '' @ [0x22] @ file_name f @ [0x22] @ lit '' ready for processing''"

definition toast :: "FileUpload \<Rightarrow> toast \<Rightarrow> FileUpload" where
  "toast s t = s\<lparr> toasts := toasts s @ [t] \<rparr>"

text \<open>
  \<open>onDrop\<close>; \<open>rid\<close> is the string \<open>Math.random().toString(36).substr(2, 9)\<close> produces.
\<close>

definition onDrop :: "jsstring \<Rightarrow> File list \<Rightarrow> FileUpload \<Rightarrow> FileUpload" where
  "onDrop rid acceptedFiles s =
     (case acceptedFiles of
        [] \<Rightarrow> s
      | f # rest \<Rightarrow>
          if file_size f > maxSize then toast s (toast_error too_large_message)
          else if file_type f \<notin> set allowedTypes then toast s (toast_error unsupported_message)
          else toast (s\<lparr> uploadedFile := Some \<lparr> uf_file = f, uf_id = rid \<rparr> \<rparr>)
                     (toast_success (ready_message f)))"

definition handleProcess_request :: "File \<Rightarrow> jsstring \<Rightarrow> RedactionRequest" where
  \<comment> \<open>the argument of \<open>mutateAsync\<close>: \<open>prompt.trim() || undefined\<close>, \<open>preview_only: false\<close>\<close>
  "handleProcess_request f p =
     \<lparr> req_file = f, prompt = or_else (Some (trim p)) None, preview_only = Some False \<rparr>"

definition handleProcess :: "(AxiosError + RedactionResponse) \<Rightarrow> FileUpload \<Rightarrow> FileUpload" where
  \<comment> \<open>the first argument is the network's answer to the request\<close>
  "handleProcess answer s =
     (case uploadedFile s of
        None \<Rightarrow> s
      | Some u \<Rightarrow>
          let request = handleProcess_request (uf_file u) (prompt_state s);
              s = s\<lparr> network := network s @ [processDocument_request request] \<rparr>
          in (case processDocument (answering answer) request of
                Inr res \<Rightarrow>
                  toast (s\<lparr> jobId := Some (rr_job_id res) \<rparr>)
                        (toast_success (lit ''Document processing started!''))
              | Inl err \<Rightarrow>
                  toast s (toast_error (or_default (message err)
                                          (lit ''Failed to process document'')))))"

definition handleDownload :: "(AxiosError + 'b) \<Rightarrow> FileUpload \<Rightarrow> FileUpload" where
  "handleDownload answer s =
     (if \<not> truthy (jobId s) then s
      else (case jobId s of
              None \<Rightarrow> s
            | Some j \<Rightarrow>
                let s = s\<lparr> network := network s @ [downloadResult_request j] \<rparr>
                in (case downloadResult (answering answer) j of
                      Inr blob \<Rightarrow> toast s (toast_success (lit ''Document downloaded successfully!''))
                    | Inl err \<Rightarrow>
                        toast s (toast_error (or_default (message err)
                                                (lit ''Failed to download document''))))))"

definition handleReset :: "FileUpload \<Rightarrow> FileUpload" where
  "handleReset s = s\<lparr> uploadedFile := None, prompt_state := [], jobId := None \<rparr>"

definition setPrompt :: "jsstring \<Rightarrow> FileUpload \<Rightarrow> FileUpload" where
  "setPrompt v s = s\<lparr> prompt_state := v \<rparr>"

datatype 'b ui_event =
    Drop jsstring "File list"
  | SetPrompt jsstring
  | Process "AxiosError + RedactionResponse"
  | Download "AxiosError + 'b"
  | Reset

fun handle :: "FileUpload \<Rightarrow> 'b ui_event \<Rightarrow> FileUpload" where
  "handle s (Drop rid fs) = onDrop rid fs s"
| "handle s (SetPrompt v) = setPrompt v s"
| "handle s (Process a) = handleProcess a s"
| "handle s (Download a) = handleDownload a s"
| "handle s Reset = handleReset s"

definition initial :: FileUpload where
  "initial = \<lparr> uploadedFile = None, prompt_state = [], jobId = None, toasts = [], network = [] \<rparr>"

definition session :: "'b ui_event list \<Rightarrow> FileUpload" where
  "session evs = foldl handle initial evs"

definition carries :: "HttpRequest \<Rightarrow> File \<Rightarrow> bool" where
  \<comment> \<open>the request's form has this file in a field\<close>
  "carries r f = (case form r of None \<Rightarrow> False | Some fd \<Rightarrow> FileValue f \<in> snd ` set fd)"


section \<open>components/NaturalLanguageInput.tsx\<close>

text \<open>
  Modelled from the spec: the response type of \<open>analyze-prompt\<close> is imported from the
  types but is not in the sources; its fields are those the preview component reads.
\<close>

record AnalyzePromptResponse =
  entities_to_redact :: "jsstring list"
  entities_to_keep :: "jsstring list"
  confidence :: jsstring
  unrecognized_terms :: "jsstring list option"
  analysis_error :: "jsstring option"

text \<open>
  Modelled from the spec: \<open>useAnalyzePrompt\<close> is imported from the hooks but is not in
  the sources; \<open>mutate\<close> sends the prompt to \<open>analyze-prompt\<close> (\<open>calls\<close> lists the
  prompts sent) and supersedes the analysis of the call before; until the new call is
  answered \<open>isPending\<close> holds (\<open>pending\<close>) and \<open>data\<close> is empty (\<open>analysis\<close>).

  The rest is the state of the component: the \<open>value\<close> property, \<open>debouncedValue\<close>, and
  the pending timeout of the first effect (the milliseconds left and the value it will
  deliver). \<open>quiet\<close> is not a variable of the component: it is the time for which
  \<open>value\<close> has stood unchanged, kept to say how long the quiet period before a call was.
\<close>

record NaturalLanguageInput =
  nli_value :: jsstring
  debouncedValue :: jsstring
  handler :: "(nat \<times> jsstring) option"
  calls :: "jsstring list"
  analysis :: "AnalyzePromptResponse option"
  pending :: bool
  quiet :: nat

datatype nli_event =
    Change jsstring
  | Elapse nat
  | Analysed AnalyzePromptResponse
  | AnalysisFailed

definition analyse_effect :: "NaturalLanguageInput \<Rightarrow> NaturalLanguageInput" where
  \<comment> \<open>the second effect, run when \<open>debouncedValue\<close> has changed and once after mounting\<close>
  "analyse_effect s =
     (if length (trim (debouncedValue s)) > 3
      then s\<lparr> calls := calls s @ [debouncedValue s], analysis := None, pending := True \<rparr>
      else s)"

definition nli_mount :: "jsstring \<Rightarrow> NaturalLanguageInput" where
  "nli_mount v =
     analyse_effect \<lparr> nli_value = v, debouncedValue = v, handler = Some (500, v), calls = [],
                      analysis = None, pending = False, quiet = 0 \<rparr>"

fun nli_step :: "NaturalLanguageInput \<Rightarrow> nli_event \<Rightarrow> NaturalLanguageInput" where
  "nli_step s (Change v) =
     (if v = nli_value s then s
      else s\<lparr> nli_value := v, handler := Some (500, v), quiet := 0 \<rparr>)"
| "nli_step s (Elapse dt) =
     (let s = s\<lparr> quiet := quiet s + dt \<rparr>
      in case handler s of
           None \<Rightarrow> s
         | Some (left, v) \<Rightarrow>
             if dt < left then s\<lparr> handler := Some (left - dt, v) \<rparr>
             else if v = debouncedValue s then s\<lparr> handler := None \<rparr>
             else analyse_effect (s\<lparr> handler := None, debouncedValue := v \<rparr>))"
| "nli_step s (Analysed a) = s\<lparr> analysis := Some a, pending := False \<rparr>"
| "nli_step s AnalysisFailed = s\<lparr> pending := False \<rparr>"

definition nli_run :: "jsstring \<Rightarrow> nli_event list \<Rightarrow> NaturalLanguageInput" where
  "nli_run v evs = foldl nli_step (nli_mount v) evs"

text \<open>
  \<open>EntityDetectionPreview\<close>: it renders nothing when the prompt is blank, or when there is
  neither an analysis nor a call pending; otherwise the panel shows the loading state or the
  analysis. The input passes it the data of the mutation, \<open>isPending\<close> and the current
  \<open>value\<close> (not the debounced one).
\<close>

datatype panel = Hidden | Analyzing | Showing AnalyzePromptResponse

definition EntityDetectionPreview ::
  "AnalyzePromptResponse option \<Rightarrow> bool \<Rightarrow> jsstring \<Rightarrow> panel" where
  "EntityDetectionPreview an isLoading prompt_text =
     (if trim prompt_text = [] \<or> (an = None \<and> \<not> isLoading) then Hidden
      else if isLoading then Analyzing
      else (case an of Some a \<Rightarrow> Showing a | None \<Rightarrow> Hidden))"

definition preview :: "NaturalLanguageInput \<Rightarrow> panel" where
  "preview s = EntityDetectionPreview (analysis s) (pending s) (nli_value s)"

section \<open>Predicates used in the proofs\<close>

definition valid_file :: "File \<Rightarrow> bool" where
  "valid_file f \<longleftrightarrow> file_size f \<le> maxSize \<and> file_type f \<in> set allowedTypes"

definition only_valid :: "FileUpload \<Rightarrow> bool" where
  \<comment> \<open>what every state of the component satisfies\<close>
  "only_valid s \<longleftrightarrow>
     (case uploadedFile s of None \<Rightarrow> True | Some u \<Rightarrow> valid_file (uf_file u)) \<and>
     (\<forall>r \<in> set (network s). \<forall>f. carries r f \<longrightarrow> valid_file f) \<and>
     (\<forall>r \<in> set (network s). url r \<noteq> lit ''/upload'') \<and>
     (jobId s \<noteq> None \<longrightarrow> (\<exists>r \<in> set (network s). url r = lit ''/redact''))"

definition debounced :: "NaturalLanguageInput \<Rightarrow> bool" where
  \<comment> \<open>what every state of the input satisfies\<close>
  "debounced s \<longleftrightarrow>
     (\<forall>p \<in> set (calls s). 3 < length (trim p)) \<and>
     (case handler s of None \<Rightarrow> True
      | Some (left, v) \<Rightarrow> v = nli_value s \<and> left + quiet s = 500)"

definition hooked :: "poller \<Rightarrow> bool" where
  \<comment> \<open>what every state of the hook satisfies\<close>
  "hooked p \<longleftrightarrow>
     (\<exists>en. options p = useJobStatus (queryKey (options p)) en) \<and>
     (\<not> enabled (options p) \<longrightarrow> timer p = None \<and> phase p = Idle) \<and>
     (\<not> truthy (queryKey (options p)) \<longrightarrow> \<not> fetching p)"

definition budget :: "poller \<Rightarrow> nat" where
  \<comment> \<open>the retries the query in flight may still make\<close>
  "budget p = (if fetching p then retry (options p) - failureCount p else 0)"


section \<open>Inputs of the test suite and of the examples\<close>

definition test_file :: File where
  "test_file = \<lparr> file_name = lit ''test.txt'', file_size = 12, file_type = lit ''text/plain'' \<rparr>"

definition large_file :: File where
  "large_file =
     \<lparr> file_name = lit ''scan.pdf'', file_size = 52428801, file_type = lit ''application/pdf'' \<rparr>"

definition exe_file :: File where
  "exe_file =
     \<lparr> file_name = lit ''setup.exe'', file_size = 12,
       file_type = lit ''application/x-msdownload'' \<rparr>"

definition large_exe_file :: File where
  "large_exe_file =
     \<lparr> file_name = lit ''setup.exe'', file_size = 52428801,
       file_type = lit ''application/x-msdownload'' \<rparr>"

definition too_large_error :: AxiosError where
  \<comment> \<open>status 413 with the body \<open>{detail: "File too large"}\<close>\<close>
  "too_large_error =
     \<lparr> response = Some \<lparr> resp_status = 413,
                          resp_data = Some \<lparr> detail = Some (lit ''File too large''),
                                             status_code = None \<rparr> \<rparr>,
       axios_message = lit ''Request failed with status code 413'' \<rparr>"

definition bad_gateway_error :: AxiosError where
  \<comment> \<open>status 502 with a body that has no \<open>detail\<close>\<close>
  "bad_gateway_error =
     \<lparr> response = Some \<lparr> resp_status = 502, resp_data = None \<rparr>,
       axios_message = lit ''Request failed with status code 502'' \<rparr>"

definition network_error :: AxiosError where
  \<comment> \<open>no response was received\<close>
  "network_error = \<lparr> response = None, axios_message = lit ''Network Error'' \<rparr>"

definition silent_error :: AxiosError where
  \<comment> \<open>no response and no message\<close>
  "silent_error = \<lparr> response = None, axios_message = [] \<rparr>"

definition processing_response :: JobStatusResponse where
  "processing_response =
     \<lparr> job_id = lit ''job-123'', status = processing, progress = 40, result = None,
       error = None \<rparr>"

definition completed_response :: JobStatusResponse where
  "completed_response =
     \<lparr> job_id = lit ''job-123'', status = completed, progress = 100,
       result = Some \<lparr> redacted_file_url = Some (lit ''/download/job-123''),
                       preview_text = None, entities_detected = 3 \<rparr>,
       error = None \<rparr>"

definition polling_job_123 :: poller where
  "polling_job_123 = mount (useJobStatus (Some (lit ''job-123'')) True)"

definition query_failure :: poll_event where
  "query_failure = Response (Inl (onRejected network_error))"

definition sample_analysis :: AnalyzePromptResponse where
  "sample_analysis =
     \<lparr> entities_to_redact = [lit ''SSN''], entities_to_keep = [], confidence = lit ''high'',
       unrecognized_terms = None, analysis_error = None \<rparr>"

definition disabled_in_flight :: poller where
  \<comment> \<open>the flag is switched off while the first status query is in flight\<close>
  "disabled_in_flight = setOptions polling_job_123 (useJobStatus (Some (lit ''job-123'')) False)"

definition analysed_input :: NaturalLanguageInput where
  \<comment> \<open>a prompt has been typed, has settled and has been analysed\<close>
  "analysed_input =
     nli_run [] [Change (lit ''Redact SSN only''), Elapse 500, Analysed sample_analysis]"

definition object_url :: "jsstring \<Rightarrow> jsstring" where
  "object_url blob = lit ''blob:'' @ blob"

definition sample_session :: "jsstring ui_event list" where
  "sample_session =
     [Drop (lit ''a1'') [large_file], Process (Inl network_error),
      Drop (lit ''b2'') [test_file], SetPrompt (lit ''Redact SSN only''),
      Process (Inr \<lparr> rr_job_id = lit ''job-123'', success = True,
                     rr_message = lit ''Processing started'', rr_preview_text = None,
                     rr_entities_detected = 2 \<rparr>),
      Drop (lit ''c3'') [large_file]]"


section \<open>Facts about the definitions\<close>

lemma field_names_distinct:
  "lit ''file'' \<noteq> lit ''prompt''" "lit ''file'' \<noteq> lit ''preview_only''"
  "lit ''prompt'' \<noteq> lit ''preview_only''" "lit ''prompt'' \<noteq> lit ''file''"
  "lit ''preview_only'' \<noteq> lit ''file''" "lit ''preview_only'' \<noteq> lit ''prompt''"
  by (simp_all add: lit_def)

lemma processDocument_form_eq:
  "processDocument_form r =
     [(lit ''file'', FileValue (req_file r))] @
     (case prompt r of
        Some p \<Rightarrow> if p \<noteq> [] then [(lit ''prompt'', StringValue p)] else []
      | None \<Rightarrow> []) @
     (case preview_only r of
        Some b \<Rightarrow> [(lit ''preview_only'', StringValue (toString_bool b))]
      | None \<Rightarrow> [])"
  by (simp add: processDocument_form_def append_def Let_def split: option.splits)

lemma useJobStatus_simps:
  "queryKey (useJobStatus jid en) = jid"
  "enabled (useJobStatus jid en) = (en \<and> truthy jid)"
  "refetchInterval (useJobStatus jid en) = jobStatus_refetchInterval"
  "retry (useJobStatus jid en) = 3"
  by (simp_all add: useJobStatus_def)

lemma callback_on_query_object: "jobStatus_refetchInterval (QueryObject x) = Some 2000"
  by (simp add: jobStatus_refetchInterval_def status_of_def)

lemma callback_on_snapshot:
  "jobStatus_refetchInterval (Snapshot (Some d)) =
     (if status d = completed \<or> status d = failed then None else Some 2000)"
  by (simp add: jobStatus_refetchInterval_def status_of_def)

lemma arm_simps:
  "issued (arm p) = issued p" "fetching (arm p) = fetching p" "phase (arm p) = phase p"
  "options (arm p) = options p" "failureCount (arm p) = failureCount p"
  "cache (arm p) = cache p" "snapshot (arm p) = snapshot p"
  "timer (arm p) = (if enabled (options p)
                    then refetchInterval (options p) (QueryObject (snapshot p)) else None)"
  by (simp_all add: arm_def snapshot_def)

lemma step_quiescent: "\<not> fetching p \<Longrightarrow> timer p = None \<Longrightarrow> step p ev = p"
  by (cases ev) simp_all

lemma run_quiescent: "\<not> fetching p \<Longrightarrow> timer p = None \<Longrightarrow> run p evs = p"
  unfolding run_def by (induction evs) (simp_all add: step_quiescent)

lemma polling_job_123_simps:
  "options polling_job_123 = useJobStatus (Some (lit ''job-123'')) True"
  "enabled (options polling_job_123)"
  "fetching polling_job_123"
  "failureCount polling_job_123 = 0"
  "phase polling_job_123 = Polling"
  "issued polling_job_123 = [getJobStatus_request (lit ''job-123'')]"
  "timer polling_job_123 = Some 2000"
  by (simp_all add: polling_job_123_def mount_def fetch_def arm_simps Let_def useJobStatus_def
      truthy_def lit_def callback_on_query_object)

lemma hooked_mount: "hooked (mount (useJobStatus jid en))"
  by (auto simp: hooked_def mount_def Let_def arm_simps fetch_def useJobStatus_simps
      useJobStatus_def)

lemma hooked_setOptions: "hooked p \<Longrightarrow> hooked (setOptions p (useJobStatus jid en))"
  by (auto simp: hooked_def setOptions_def Let_def arm_simps fetch_def useJobStatus_simps
      useJobStatus_def)

lemma hooked_enabled: "hooked p \<Longrightarrow> enabled (options p) \<Longrightarrow> truthy (queryKey (options p))"
  unfolding hooked_def by (metis useJobStatus_simps(2))

lemma hooked_step: "hooked p \<Longrightarrow> hooked (step p ev)"
proof (cases ev)
  case (Response r)
  assume h: "hooked p"
  show ?thesis
  proof (cases r)
    case (Inl e)
    with h Response show ?thesis
      by (auto simp: hooked_def onError_def arm_simps)
  next
    case (Inr d)
    with h Response show ?thesis
      by (auto simp: hooked_def onSuccess_def Let_def arm_simps)
  qed
next
  case TimerFired
  assume h: "hooked p"
  show ?thesis
  proof (cases "enabled (options p)")
    case True
    then have "truthy (queryKey (options p))" using h by (rule hooked_enabled [rotated])
    with h TimerFired True show ?thesis
      by (auto simp: hooked_def fetch_def split: option.splits)
  next
    case False
    with h TimerFired show ?thesis
      by (auto simp: hooked_def split: option.splits)
  qed
qed

lemma hooked_hook_step: "hooked p \<Longrightarrow> hooked (hook_step p ev)"
  by (cases ev) (simp_all add: hooked_setOptions hooked_step)

lemma hooked_foldl: "hooked p \<Longrightarrow> hooked (foldl hook_step p evs)"
  by (induction evs arbitrary: p) (simp_all add: hooked_hook_step)

lemma hooked_hook_run: "hooked (hook_run jid en evs)"
  by (simp add: hook_run_def hooked_foldl hooked_mount)

lemma absent_id_idle:
  assumes "hooked p" and "\<not> truthy (queryKey (options p))"
  shows "step p ev = p" and "phase p = Idle"
proof -
  have "\<not> enabled (options p)" using assms hooked_enabled by blast
  then have "timer p = None" "phase p = Idle" "\<not> fetching p"
    using assms unfolding hooked_def by blast+
  then show "step p ev = p" and "phase p = Idle" by (simp_all add: step_quiescent)
qed

lemma off_step:
  assumes "\<not> enabled (options q)" and "timer q = None"
  shows "\<not> enabled (options (step q ev)) \<and> timer (step q ev) = None \<and>
         phase (step q ev) = phase q \<and>
         length (issued (step q ev)) + budget (step q ev) \<le> length (issued q) + budget q"
proof (cases ev)
  case (Response r)
  then show ?thesis
    using assms
    by (cases r) (auto simp: onError_def onSuccess_def Let_def arm_simps budget_def)
next
  case TimerFired
  then show ?thesis using assms by simp
qed

lemma off_run:
  assumes "\<not> enabled (options q)" and "timer q = None"
  shows "\<not> enabled (options (run q evs)) \<and> timer (run q evs) = None \<and>
         phase (run q evs) = phase q \<and>
         length (issued (run q evs)) + budget (run q evs) \<le> length (issued q) + budget q"
  using assms
proof (induction evs arbitrary: q)
  case Nil
  then show ?case by (simp add: run_def)
next
  case (Cons ev evs)
  note s = off_step [OF Cons.prems, of ev]
  have "run q (ev # evs) = run (step q ev) evs" by (simp add: run_def)
  moreover note Cons.IH [of "step q ev"]
  ultimately show ?case using s by force
qed

lemma snapshot_step: "snapshot p \<noteq> None \<Longrightarrow> snapshot (step p ev) \<noteq> None"
proof (cases ev)
  case (Response r)
  assume "snapshot p \<noteq> None"
  with Response show ?thesis
    by (cases r) (auto simp: onError_def onSuccess_def Let_def arm_simps snapshot_def)
next
  case TimerFired
  assume "snapshot p \<noteq> None"
  with TimerFired show ?thesis
    by (auto simp: snapshot_def fetch_def split: option.splits)
qed

lemma snapshot_run: "snapshot p \<noteq> None \<Longrightarrow> snapshot (run p evs) \<noteq> None"
proof (induction evs arbitrary: p)
  case Nil
  then show ?case by (simp add: run_def)
next
  case (Cons ev evs)
  have "run p (ev # evs) = run (step p ev) evs" by (simp add: run_def)
  then show ?case using Cons.IH [OF snapshot_step [OF Cons.prems]] by simp
qed

lemma carries_redact: "carries (processDocument_request r) f \<longleftrightarrow> f = req_file r"
  by (cases "prompt r"; cases "preview_only r")
     (auto simp: carries_def processDocument_request_def processDocument_form_def append_def
        Let_def)

lemma carries_download: "\<not> carries (downloadResult_request j) f"
  by (simp add: carries_def downloadResult_request_def)

lemma url_redact: "url (processDocument_request r) = lit ''/redact''"
  by (simp add: processDocument_request_def)

lemma redact_not_upload: "lit ''/redact'' \<noteq> lit ''/upload''"
  by (simp add: lit_def)

lemma url_download: "url (downloadResult_request j) \<noteq> lit ''/upload''"
  by (simp add: downloadResult_request_def lit_def)

lemma only_valid_initial: "only_valid initial"
  by (simp add: only_valid_def initial_def)

lemma only_valid_onDrop: "only_valid s \<Longrightarrow> only_valid (onDrop rid fs s)"
  by (cases fs) (auto simp: only_valid_def onDrop_def toast_def valid_file_def)

lemma only_valid_handleProcess: "only_valid s \<Longrightarrow> only_valid (handleProcess a s)"
  by (cases "uploadedFile s")
     (auto simp: only_valid_def handleProcess_def Let_def toast_def carries_redact url_redact
        redact_not_upload handleProcess_request_def split: sum.splits)

lemma only_valid_handleDownload: "only_valid s \<Longrightarrow> only_valid (handleDownload a s)"
  by (cases "jobId s")
     (auto simp: only_valid_def handleDownload_def Let_def toast_def carries_download
        url_download split: sum.splits)

lemma only_valid_handle: "only_valid s \<Longrightarrow> only_valid (handle s ev)"
  by (cases ev)
     (simp_all add: only_valid_onDrop only_valid_handleProcess only_valid_handleDownload,
      simp_all add: only_valid_def setPrompt_def handleReset_def)

lemma only_valid_foldl: "only_valid s \<Longrightarrow> only_valid (foldl handle s evs)"
  by (induction evs arbitrary: s) (simp_all add: only_valid_handle)

lemma only_valid_session: "only_valid (session evs)"
  by (simp add: session_def only_valid_foldl only_valid_initial)

lemma debounced_mount: "debounced (nli_mount v)"
  by (simp add: debounced_def nli_mount_def analyse_effect_def)

lemma debounced_step: "debounced s \<Longrightarrow> debounced (nli_step s ev)"
  by (cases ev) (auto simp: debounced_def analyse_effect_def Let_def split: option.splits)

lemma debounced_foldl: "debounced s \<Longrightarrow> debounced (foldl nli_step s evs)"
  by (induction evs arbitrary: s) (simp_all add: debounced_step)

lemma debounced_run: "debounced (nli_run v evs)"
  by (simp add: nli_run_def debounced_foldl debounced_mount)

lemma call_only_on_expiry:
  assumes "debounced s" and "calls (nli_step s ev) \<noteq> calls s"
  shows "(\<exists>dt. ev = Elapse dt) \<and> calls (nli_step s ev) = calls s @ [nli_value s] \<and>
         500 \<le> quiet (nli_step s ev) \<and> 3 < length (trim (nli_value s))"
  using assms
  by (cases ev)
     (auto simp: debounced_def analyse_effect_def Let_def split: option.splits if_splits)


section \<open>Properties of the Transport Client\<close>

text \<open>
  C1 (amended). Every request that fails through the Transport Client reaches the caller as
  the normalized error of the failure. Its message is the server-supplied \<open>detail\<close> when a
  response was received and carried a non-empty \<open>detail\<close>; otherwise it is the
  transport-level message, and the generic message when that one is empty, so it is never
  empty. Its status is the status code of the response when a response was received (and the
  code is not 0), and 500 otherwise. A 413 response with the body
  \<open>{detail: "File too large"}\<close> to an upload gives the message \<open>File too large\<close> and
  the status 413.
\<close>

theorem transport_failure_normalized:
  "adapter req = Inl e \<Longrightarrow>
     client adapter req = Inl (onRejected e) \<and>
     originalError (onRejected e) = e \<and>
     (\<forall>d. response_detail e = Some d \<and> d \<noteq> [] \<longrightarrow> message (onRejected e) = d) \<and>
     (\<not> truthy (response_detail e) \<and> axios_message e \<noteq> [] \<longrightarrow>
        message (onRejected e) = axios_message e) \<and>
     (\<not> truthy (response_detail e) \<and> axios_message e = [] \<longrightarrow>
        message (onRejected e) = lit ''An error occurred'') \<and>
     message (onRejected e) \<noteq> [] \<and>
     (\<forall>r. response e = Some r \<and> resp_status r \<noteq> 0 \<longrightarrow>
        error_status (onRejected e) = resp_status r) \<and>
     (response e = None \<or> response_status e = Some 0 \<longrightarrow>
        error_status (onRejected e) = 500) \<and>
     uploadFile
       (answering
          (Inl \<lparr> response = Some \<lparr> resp_status = 413,
                                    resp_data = Some \<lparr> detail = Some (lit ''File too large''),
                                                       status_code = None \<rparr> \<rparr>,
                  axios_message = m \<rparr>)) f =
       Inl \<lparr> message = lit ''File too large'', error_status = 413,
             originalError =
               \<lparr> response = Some \<lparr> resp_status = 413,
                                    resp_data = Some \<lparr> detail = Some (lit ''File too large''),
                                                       status_code = None \<rparr> \<rparr>,
                 axios_message = m \<rparr> \<rparr>"
  by (auto simp: client_def onRejected_def or_else_def truthy_def response_detail_def
      response_status_def uploadFile_def answering_def lit_def split: option.splits)

theorem transport_failure_normalized_witness:
  "answering (Inl too_large_error) (uploadFile_request test_file)
     = (Inl too_large_error :: AxiosError + unit) \<and>
   client (answering (Inl too_large_error)) (uploadFile_request test_file)
     = (Inl \<lparr> message = lit ''File too large'', error_status = 413,
              originalError = too_large_error \<rparr> :: customError + unit) \<and>
   answering (Inl network_error) (getJobStatus_request (lit ''job-123''))
     = (Inl network_error :: AxiosError + unit) \<and>
   client (answering (Inl network_error)) (getJobStatus_request (lit ''job-123''))
     = (Inl \<lparr> message = lit ''Network Error'', error_status = 500,
              originalError = network_error \<rparr> :: customError + unit) \<and>
   answering (Inl silent_error) (getJobStatus_request (lit ''job-123''))
     = (Inl silent_error :: AxiosError + unit) \<and>
   client (answering (Inl silent_error)) (getJobStatus_request (lit ''job-123''))
     = (Inl \<lparr> message = lit ''An error occurred'', error_status = 500,
              originalError = silent_error \<rparr> :: customError + unit)"
proof -
  have a: "answering (Inl e) req = (Inl e :: AxiosError + unit)" for e req
    by (simp add: answering_def)
  have d: "response_detail too_large_error = Some (lit ''File too large'')"
       "response too_large_error
          = Some \<lparr> resp_status = 413,
                   resp_data = Some \<lparr> detail = Some (lit ''File too large''),
                                      status_code = None \<rparr> \<rparr>"
       "lit ''File too large'' \<noteq> []"
       "\<not> truthy (response_detail network_error)" "response network_error = None"
       "axios_message network_error = lit ''Network Error''" "lit ''Network Error'' \<noteq> []"
       "\<not> truthy (response_detail silent_error)" "response silent_error = None"
       "axios_message silent_error = []"
    by (simp_all add: too_large_error_def network_error_def silent_error_def
        response_detail_def truthy_def lit_def)
  have eq: "x = \<lparr> message = message x, error_status = error_status x,
                   originalError = originalError x \<rparr>" for x :: customError
    by simp
  note 1 = transport_failure_normalized
             [where adapter = "answering (Inl too_large_error :: AxiosError + unit)"
                and req = "uploadFile_request test_file" and e = too_large_error, OF a]
  note 2 = transport_failure_normalized
             [where adapter = "answering (Inl network_error :: AxiosError + unit)"
                and req = "getJobStatus_request (lit ''job-123'')" and e = network_error, OF a]
  note 3 = transport_failure_normalized
             [where adapter = "answering (Inl silent_error :: AxiosError + unit)"
                and req = "getJobStatus_request (lit ''job-123'')" and e = silent_error, OF a]
  have m1: "onRejected too_large_error
              = \<lparr> message = lit ''File too large'', error_status = 413,
                  originalError = too_large_error \<rparr>"
  proof -
    have "message (onRejected too_large_error) = lit ''File too large''"
      using 1 d(1,3) by blast
    moreover have "error_status (onRejected too_large_error) = 413"
      using 1 d(2) by fastforce
    moreover have "originalError (onRejected too_large_error) = too_large_error"
      using 1 by blast
    ultimately show ?thesis by (subst eq) simp
  qed
  have m2: "onRejected network_error
              = \<lparr> message = lit ''Network Error'', error_status = 500,
                  originalError = network_error \<rparr>"
  proof -
    have "message (onRejected network_error) = lit ''Network Error''"
      using 2 d(4,6,7) by metis
    moreover have "error_status (onRejected network_error) = 500"
      using 2 d(5) by blast
    moreover have "originalError (onRejected network_error) = network_error"
      using 2 by blast
    ultimately show ?thesis by (subst eq) simp
  qed
  have m3: "onRejected silent_error
              = \<lparr> message = lit ''An error occurred'', error_status = 500,
                  originalError = silent_error \<rparr>"
  proof -
    have "message (onRejected silent_error) = lit ''An error occurred''"
      using 3 d(8,10) by blast
    moreover have "error_status (onRejected silent_error) = 500"
      using 3 d(9) by blast
    moreover have "originalError (onRejected silent_error) = silent_error"
      using 3 by blast
    ultimately show ?thesis by (subst eq) simp
  qed
  have c: "client (answering (Inl e)) req = (Inl (onRejected e) :: customError + unit)"
    if "e = too_large_error \<or> e = network_error \<or> e = silent_error" for e req
    using that 1 2 3 transport_failure_normalized
             [where adapter = "answering (Inl e :: AxiosError + unit)" and req = req and e = e,
              OF a]
    by blast
  show ?thesis using a c m1 m2 m3 by simp
qed

theorem detail_absent_counterexample:
  "response bad_gateway_error \<noteq> None \<and>
   response_detail bad_gateway_error = None \<and>
   Some (message (onRejected bad_gateway_error)) \<noteq> response_detail bad_gateway_error \<and>
   message (onRejected bad_gateway_error) = lit ''Request failed with status code 502'' \<and>
   error_status (onRejected bad_gateway_error) = 502"
  by (simp add: bad_gateway_error_def onRejected_def response_detail_def response_status_def
      or_else_def truthy_def lit_def)

text \<open>
  C7 (amended). The multipart form of a job submission always has the \<open>file\<close> field; it
  has the \<open>prompt\<close> field if and only if a non-empty prompt was supplied, with that prompt
  as its value; and it has the \<open>preview_only\<close> field if and only if \<open>preview_only\<close>
  was supplied, with the value \<open>true\<close> or \<open>false\<close> that prints the boolean.
\<close>

theorem redact_form_fields:
  "form (processDocument_request r) = Some (processDocument_form r) \<and>
   (lit ''file'', FileValue (req_file r)) \<in> set (processDocument_form r) \<and>
   (lit ''prompt'' \<in> fst ` set (processDocument_form r) \<longleftrightarrow>
      (\<exists>p. prompt r = Some p \<and> p \<noteq> [])) \<and>
   (\<forall>v. (lit ''prompt'', v) \<in> set (processDocument_form r) \<longrightarrow>
      (\<exists>p. prompt r = Some p \<and> v = StringValue p)) \<and>
   (lit ''preview_only'' \<in> fst ` set (processDocument_form r) \<longleftrightarrow> preview_only r \<noteq> None) \<and>
   (\<forall>v. (lit ''preview_only'', v) \<in> set (processDocument_form r) \<longrightarrow>
      (preview_only r = Some True \<and> v = StringValue (lit ''true'')) \<or>
      (preview_only r = Some False \<and> v = StringValue (lit ''false'')))"
  by (cases "prompt r"; cases "preview_only r")
     (auto simp: processDocument_form_eq processDocument_request_def field_names_distinct
        toString_bool_def image_iff)

theorem redact_form_fields_witness:
  "processDocument_form
     \<lparr> req_file = test_file, prompt = Some (lit ''Redact SSN only''), preview_only = Some True \<rparr>
     = [(lit ''file'', FileValue test_file),
        (lit ''prompt'', StringValue (lit ''Redact SSN only'')),
        (lit ''preview_only'', StringValue (lit ''true''))] \<and>
   lit ''prompt'' \<in> fst ` set (processDocument_form
     \<lparr> req_file = test_file, prompt = Some (lit ''Redact SSN only''), preview_only = Some True \<rparr>) \<and>
   lit ''preview_only'' \<in> fst ` set (processDocument_form
     \<lparr> req_file = test_file, prompt = Some (lit ''Redact SSN only''), preview_only = Some True \<rparr>) \<and>
   processDocument_form \<lparr> req_file = test_file, prompt = None, preview_only = None \<rparr>
     = [(lit ''file'', FileValue test_file)]"
proof -
  let ?r = "\<lparr> req_file = test_file, prompt = Some (lit ''Redact SSN only''),
               preview_only = Some True \<rparr>"
  have p: "\<exists>p. prompt ?r = Some p \<and> p \<noteq> []" "preview_only ?r \<noteq> None"
    by (simp_all add: lit_def)
  have "lit ''prompt'' \<in> fst ` set (processDocument_form ?r)"
       "lit ''preview_only'' \<in> fst ` set (processDocument_form ?r)"
    using redact_form_fields [of ?r] p by blast+
  moreover have "processDocument_form ?r
     = [(lit ''file'', FileValue test_file),
        (lit ''prompt'', StringValue (lit ''Redact SSN only'')),
        (lit ''preview_only'', StringValue (lit ''true''))]"
    by (simp add: processDocument_form_eq toString_bool_def lit_def)
  moreover have "processDocument_form \<lparr> req_file = test_file, prompt = None, preview_only = None \<rparr>
     = [(lit ''file'', FileValue test_file)]"
    by (simp add: processDocument_form_eq)
  ultimately show ?thesis by simp
qed

theorem empty_prompt_counterexample:
  "prompt \<lparr> req_file = test_file, prompt = Some [], preview_only = None \<rparr> \<noteq> None \<and>
   lit ''prompt'' \<notin> fst ` set (processDocument_form
                                  \<lparr> req_file = test_file, prompt = Some [], preview_only = None \<rparr>) \<and>
   processDocument_form \<lparr> req_file = test_file, prompt = Some [], preview_only = None \<rparr>
     = [(lit ''file'', FileValue test_file)]"
  by (simp add: processDocument_form_eq field_names_distinct)

text \<open>
  C10. In the submission path the form handed to the Transport Client has a \<open>prompt\<close>
  field if and only if the trimmed prompt is not empty, and its value is then the trimmed
  prompt; a prompt that is empty or only whitespace gives the form of an absent prompt;
  \<open>preview_only\<close> is always sent, as the string \<open>false\<close>.
\<close>

theorem submission_prompt_field:
  "prompt (handleProcess_request f p) = (if trim p \<noteq> [] then Some (trim p) else None) \<and>
   preview_only (handleProcess_request f p) = Some False \<and>
   processDocument_form (handleProcess_request f p) =
     [(lit ''file'', FileValue f)] @
     (if trim p \<noteq> [] then [(lit ''prompt'', StringValue (trim p))] else []) @
     [(lit ''preview_only'', StringValue (lit ''false''))] \<and>
   (lit ''prompt'' \<in> fst ` set (processDocument_form (handleProcess_request f p))
      \<longleftrightarrow> trim p \<noteq> []) \<and>
   (trim p = [] \<longrightarrow>
      processDocument_form (handleProcess_request f p) =
      processDocument_form \<lparr> req_file = f, prompt = None, preview_only = Some False \<rparr>) \<and>
   (uploadedFile s = Some u \<longrightarrow>
      network (handleProcess a s) =
        network s @ [\<lparr> http_method = POST, url = lit ''/redact'',
                       form = Some (processDocument_form
                                      (handleProcess_request (uf_file u) (prompt_state s))) \<rparr>])"
proof -
  have 1: "processDocument_form (handleProcess_request f p) =
     [(lit ''file'', FileValue f)] @
     (if trim p \<noteq> [] then [(lit ''prompt'', StringValue (trim p))] else []) @
     [(lit ''preview_only'', StringValue (lit ''false''))]" for f p
    by (simp add: processDocument_form_eq handleProcess_request_def or_else_def truthy_def
        toString_bool_def)
  have 2: "lit ''prompt'' \<in> fst ` set (processDocument_form (handleProcess_request f p))
             \<longleftrightarrow> trim p \<noteq> []"
    by (cases "trim p = []") (simp_all add: 1 field_names_distinct)
  have 3: "trim p = [] \<longrightarrow>
      processDocument_form (handleProcess_request f p) =
      processDocument_form \<lparr> req_file = f, prompt = None, preview_only = Some False \<rparr>"
    by (simp add: 1) (simp add: processDocument_form_eq toString_bool_def)
  have 4: "uploadedFile s = Some u \<longrightarrow>
      network (handleProcess a s) =
        network s @ [\<lparr> http_method = POST, url = lit ''/redact'',
                       form = Some (processDocument_form
                                      (handleProcess_request (uf_file u) (prompt_state s))) \<rparr>]"
    by (simp add: handleProcess_def Let_def toast_def processDocument_request_def
        split: sum.splits)
  have 5: "prompt (handleProcess_request f p) = (if trim p \<noteq> [] then Some (trim p) else None)"
          "preview_only (handleProcess_request f p) = Some False"
    by (simp_all add: handleProcess_request_def or_else_def truthy_def)
  from 1 2 3 4 5 show ?thesis by blast
qed

theorem submission_prompt_field_witness:
  "trim (lit ''  Redact SSN only '') = lit ''Redact SSN only'' \<and>
   processDocument_form (handleProcess_request test_file (lit ''  Redact SSN only '')) =
     [(lit ''file'', FileValue test_file),
      (lit ''prompt'', StringValue (lit ''Redact SSN only'')),
      (lit ''preview_only'', StringValue (lit ''false''))] \<and>
   trim (lit ''   '') = [] \<and>
   processDocument_form (handleProcess_request test_file (lit ''   '')) =
     [(lit ''file'', FileValue test_file),
      (lit ''preview_only'', StringValue (lit ''false''))] \<and>
   network (handleProcess (Inl network_error)
              (initial\<lparr> uploadedFile := Some \<lparr> uf_file = test_file, uf_id = lit ''k3j9x0q1z'' \<rparr>,
                        prompt_state := lit ''   '' \<rparr>)) =
     [\<lparr> http_method = POST, url = lit ''/redact'',
        form = Some [(lit ''file'', FileValue test_file),
                     (lit ''preview_only'', StringValue (lit ''false''))] \<rparr>]"
proof -
  have t: "trim (lit ''  Redact SSN only '') = lit ''Redact SSN only''" "trim (lit ''   '') = []"
    by (simp_all add: trim_def isWhiteSpace_def lit_def)
  let ?s = "initial\<lparr> uploadedFile := Some \<lparr> uf_file = test_file, uf_id = lit ''k3j9x0q1z'' \<rparr>,
                     prompt_state := lit ''   '' \<rparr>"
  have u: "uploadedFile ?s = Some \<lparr> uf_file = test_file, uf_id = lit ''k3j9x0q1z'' \<rparr>"
          "prompt_state ?s = lit ''   ''" "network ?s = []"
    by (simp_all add: initial_def)
  have n: "lit ''Redact SSN only'' \<noteq> []" by (simp add: lit_def)
  show ?thesis
    using submission_prompt_field [of test_file "lit ''  Redact SSN only ''"]
          submission_prompt_field
            [of test_file "lit ''   ''" ?s "\<lparr> uf_file = test_file, uf_id = lit ''k3j9x0q1z'' \<rparr>"
                "Inl network_error"]
          t u n
    by simp
qed

section \<open>Properties of the Result Retriever\<close>

text \<open>
  C9. A download for job id \<open>j\<close> asks for \<open>/job/j/download\<close>. When the network
  answers with a blob, exactly this happens: an object URL is made for that blob, an anchor
  whose address is that URL and whose file name is \<open>redacted-document-\<close>, the job id, a
  dot and the extension \<open>txt\<close> is appended to the document and clicked, the URL is
  revoked and the anchor is removed. When the request fails, nothing is handed over: the
  normalized error is written to the console.
\<close>

theorem download_hands_artifact:
  "downloadResult_request j =
     \<lparr> http_method = GET, url = lit ''/job/'' @ j @ lit ''/download'', form = None \<rparr> \<and>
   (adapter (downloadResult_request j) = Inr blob \<longrightarrow>
      useDownloadResult adapter createURL j =
        [createObjectURL blob,
         appendChild \<lparr> href = createURL blob,
                       download = lit ''redacted-document-'' @ j @ lit ''.'' @ lit ''txt'' \<rparr>,
         click \<lparr> href = createURL blob,
                 download = lit ''redacted-document-'' @ j @ lit ''.'' @ lit ''txt'' \<rparr>,
         revokeObjectURL (createURL blob),
         removeChild \<lparr> href = createURL blob,
                       download = lit ''redacted-document-'' @ j @ lit ''.'' @ lit ''txt'' \<rparr>]) \<and>
   (adapter (downloadResult_request j) = Inl e \<longrightarrow>
      useDownloadResult adapter createURL j = [console_error (onRejected e)])"
  by (simp add: useDownloadResult_def download_onSuccess_def downloadResult_def client_def
      downloadResult_request_def lit_def Let_def)

theorem download_hands_artifact_witness:
  "answering (Inr (lit ''redacted content'')) (downloadResult_request (lit ''job-123''))
     = (Inr (lit ''redacted content'') :: AxiosError + jsstring) \<and>
   useDownloadResult (answering (Inr (lit ''redacted content'') :: AxiosError + jsstring))
       object_url (lit ''job-123'') =
     [createObjectURL (lit ''redacted content''),
      appendChild \<lparr> href = lit ''blob:redacted content'',
                    download = lit ''redacted-document-job-123.txt'' \<rparr>,
      click \<lparr> href = lit ''blob:redacted content'',
              download = lit ''redacted-document-job-123.txt'' \<rparr>,
      revokeObjectURL (lit ''blob:redacted content''),
      removeChild \<lparr> href = lit ''blob:redacted content'',
                    download = lit ''redacted-document-job-123.txt'' \<rparr>] \<and>
   answering (Inl network_error) (downloadResult_request (lit ''job-123''))
     = (Inl network_error :: AxiosError + jsstring) \<and>
   useDownloadResult (answering (Inl network_error :: AxiosError + jsstring))
       object_url (lit ''job-123'') =
     [console_error (onRejected network_error)]"
proof -
  have a: "answering x req = x" for x :: "AxiosError + jsstring" and req
    by (simp add: answering_def)
  have n: "lit ''redacted-document-'' @ lit ''job-123'' @ lit ''.'' @ lit ''txt''
             = lit ''redacted-document-job-123.txt''"
          "object_url (lit ''redacted content'') = lit ''blob:redacted content''"
    by (simp_all add: lit_def object_url_def)
  note 1 = download_hands_artifact
             [where adapter = "answering (Inr (lit ''redacted content'') :: AxiosError + jsstring)"
                and j = "lit ''job-123''" and blob = "lit ''redacted content''"
                and createURL = object_url]
  note 2 = download_hands_artifact
             [where adapter = "answering (Inl network_error :: AxiosError + jsstring)"
                and j = "lit ''job-123''" and e = network_error and createURL = object_url]
  have 3: "useDownloadResult (answering (Inr (lit ''redacted content'') :: AxiosError + jsstring))
             object_url (lit ''job-123'') =
           [createObjectURL (lit ''redacted content''),
            appendChild \<lparr> href = lit ''blob:redacted content'',
                          download = lit ''redacted-document-job-123.txt'' \<rparr>,
            click \<lparr> href = lit ''blob:redacted content'',
                    download = lit ''redacted-document-job-123.txt'' \<rparr>,
            revokeObjectURL (lit ''blob:redacted content''),
            removeChild \<lparr> href = lit ''blob:redacted content'',
                          download = lit ''redacted-document-job-123.txt'' \<rparr>]"
    using 1 a unfolding n by blast
  have 4: "useDownloadResult (answering (Inl network_error :: AxiosError + jsstring))
             object_url (lit ''job-123'') = [console_error (onRejected network_error)]"
    using 2 a by blast
  show ?thesis using a 3 4 by blast
qed

section \<open>Properties of the Upload Validator\<close>

text \<open>
  C3. For the selected file the rules are checked in order and the first violation wins: a
  size above 52,428,800 bytes is rejected with the file-too-large message; otherwise a
  declared MIME type outside the allow-list (plain text, PDF, Word-processing document, PNG,
  and JPEG under its two names) is rejected with the unsupported-type message; otherwise the
  file is accepted and stored with the locally generated identifier.
\<close>

theorem upload_validator:
  "maxSize = 52428800 \<and>
   set allowedTypes =
     {lit ''text/plain'', lit ''application/pdf'',
      lit ''application/vnd.openxmlformats-officedocument.wordprocessingml.document'',
      lit ''image/png'', lit ''image/jpeg'', lit ''image/jpg''} \<and>
   (file_size f > 52428800 \<longrightarrow>
      onDrop rid (f # fs) s = toast s (toast_error too_large_message)) \<and>
   (file_size f \<le> 52428800 \<and> file_type f \<notin> set allowedTypes \<longrightarrow>
      onDrop rid (f # fs) s = toast s (toast_error unsupported_message)) \<and>
   (file_size f \<le> 52428800 \<and> file_type f \<in> set allowedTypes \<longrightarrow>
      onDrop rid (f # fs) s =
        toast (s\<lparr> uploadedFile := Some \<lparr> uf_file = f, uf_id = rid \<rparr> \<rparr>)
              (toast_success (ready_message f))) \<and>
   (file_size f > 52428800 \<or> file_type f \<notin> set allowedTypes \<longrightarrow>
      uploadedFile (onDrop rid (f # fs) s) = uploadedFile s)"
  by (auto simp: onDrop_def maxSize_def allowedTypes_def toast_def)

theorem upload_validator_witness:
  "file_size large_exe_file > 52428800 \<and> file_type large_exe_file \<notin> set allowedTypes \<and>
   onDrop (lit ''k3j9x0q1z'') [large_exe_file] initial
     = toast initial (toast_error too_large_message) \<and>
   file_size exe_file \<le> 52428800 \<and> file_type exe_file \<notin> set allowedTypes \<and>
   onDrop (lit ''k3j9x0q1z'') [exe_file] initial
     = toast initial (toast_error unsupported_message) \<and>
   file_size test_file \<le> 52428800 \<and> file_type test_file \<in> set allowedTypes \<and>
   uploadedFile (onDrop (lit ''k3j9x0q1z'') [test_file] initial)
     = Some \<lparr> uf_file = test_file, uf_id = lit ''k3j9x0q1z'' \<rparr> \<and>
   toasts (onDrop (lit ''k3j9x0q1z'') [test_file] initial)
     = [toast_success (ready_message test_file)]"
proof -
  have a: "file_size large_exe_file > 52428800" "file_type large_exe_file \<notin> set allowedTypes"
    by (simp_all add: large_exe_file_def allowedTypes_def lit_def)
  have b: "file_size exe_file \<le> 52428800" "file_type exe_file \<notin> set allowedTypes"
    by (simp_all add: exe_file_def allowedTypes_def lit_def)
  have c: "file_size test_file \<le> 52428800" "file_type test_file \<in> set allowedTypes"
    by (simp_all add: test_file_def allowedTypes_def)
  have 1: "onDrop (lit ''k3j9x0q1z'') [large_exe_file] initial
             = toast initial (toast_error too_large_message)"
    using upload_validator [of large_exe_file "lit ''k3j9x0q1z''" "[]" initial] a by blast
  have 2: "onDrop (lit ''k3j9x0q1z'') [exe_file] initial
             = toast initial (toast_error unsupported_message)"
    using upload_validator [of exe_file "lit ''k3j9x0q1z''" "[]" initial] b by blast
  have 3: "onDrop (lit ''k3j9x0q1z'') [test_file] initial
             = toast (initial\<lparr> uploadedFile :=
                                  Some \<lparr> uf_file = test_file, uf_id = lit ''k3j9x0q1z'' \<rparr> \<rparr>)
                     (toast_success (ready_message test_file))"
    using upload_validator [of test_file "lit ''k3j9x0q1z''" "[]" initial] c by blast
  have 4: "uploadedFile (onDrop (lit ''k3j9x0q1z'') [test_file] initial)
             = Some \<lparr> uf_file = test_file, uf_id = lit ''k3j9x0q1z'' \<rparr>"
          "toasts (onDrop (lit ''k3j9x0q1z'') [test_file] initial)
             = [toast_success (ready_message test_file)]"
    unfolding 3 by (simp_all add: toast_def initial_def)
  show ?thesis using a b c 1 2 4 by blast
qed

text \<open>
  C6. A file above 50 MiB, or of a declared MIME type outside the allowed set, is rejected
  when it is dropped: the drop raises an error toast and changes neither the stored file,
  nor the job id, nor the requests sent. In every session of the component no request sent
  carries such a file, no request goes to \<open>/upload\<close>, and a job id (the only thing a status
  query is made for) is present only after a \<open>/redact\<close> request, which carried another
  file.
\<close>

theorem rejected_before_network:
  assumes "file_size f > 52428800 \<or> file_type f \<notin> set allowedTypes"
  shows "network (onDrop rid (f # fs) s) = network s \<and>
         uploadedFile (onDrop rid (f # fs) s) = uploadedFile s \<and>
         jobId (onDrop rid (f # fs) s) = jobId s \<and>
         (\<exists>m. toasts (onDrop rid (f # fs) s) = toasts s @ [toast_error m]) \<and>
         (\<forall>u. uploadedFile (session evs) = Some u \<longrightarrow> uf_file u \<noteq> f) \<and>
         (\<forall>r \<in> set (network (session evs)). \<not> carries r f \<and> url r \<noteq> lit ''/upload'') \<and>
         (jobId (session evs) \<noteq> None \<longrightarrow>
            (\<exists>r \<in> set (network (session evs)). url r = lit ''/redact'' \<and> \<not> carries r f))"
proof -
  have nv: "\<not> valid_file f" using assms by (auto simp: valid_file_def maxSize_def)
  have 1: "network (onDrop rid (f # fs) s) = network s \<and>
         uploadedFile (onDrop rid (f # fs) s) = uploadedFile s \<and>
         jobId (onDrop rid (f # fs) s) = jobId s \<and>
         (\<exists>m. toasts (onDrop rid (f # fs) s) = toasts s @ [toast_error m])"
    using assms by (auto simp: onDrop_def toast_def maxSize_def)
  have inv: "only_valid (session evs)" by (rule only_valid_session)
  have 2: "\<forall>u. uploadedFile (session evs) = Some u \<longrightarrow> uf_file u \<noteq> f"
    using inv nv by (auto simp: only_valid_def)
  have 3: "\<forall>r \<in> set (network (session evs)). \<not> carries r f \<and> url r \<noteq> lit ''/upload''"
    using inv nv by (auto simp: only_valid_def)
  have 4: "jobId (session evs) \<noteq> None \<longrightarrow>
            (\<exists>r \<in> set (network (session evs)). url r = lit ''/redact'' \<and> \<not> carries r f)"
    using inv 3 unfolding only_valid_def by blast
  from 1 2 3 4 show ?thesis by blast
qed

theorem rejected_before_network_witness:
  "file_size large_file > 52428800 \<and>
   network (session sample_session)
     = [processDocument_request
          \<lparr> req_file = test_file, prompt = Some (lit ''Redact SSN only''),
            preview_only = Some False \<rparr>] \<and>
   jobId (session sample_session) = Some (lit ''job-123'') \<and>
   \<not> carries (processDocument_request
                \<lparr> req_file = test_file, prompt = Some (lit ''Redact SSN only''),
                  preview_only = Some False \<rparr>) large_file \<and>
   url (processDocument_request
          \<lparr> req_file = test_file, prompt = Some (lit ''Redact SSN only''),
            preview_only = Some False \<rparr>) \<noteq> lit ''/upload''"
proof -
  have a: "file_size large_file > 52428800 \<or> file_type large_file \<notin> set allowedTypes"
    by (simp add: large_file_def)
  have t: "trim (lit ''Redact SSN only'') = lit ''Redact SSN only''"
    by (simp add: trim_def isWhiteSpace_def lit_def)
  have n: "lit ''Redact SSN only'' \<noteq> []" by (simp add: lit_def)
  have v: "file_size test_file \<le> maxSize" "file_type test_file \<in> set allowedTypes"
          "file_size large_file > maxSize"
    by (simp_all add: test_file_def large_file_def maxSize_def allowedTypes_def)
  have s: "network (session sample_session)
     = [processDocument_request
          \<lparr> req_file = test_file, prompt = Some (lit ''Redact SSN only''),
            preview_only = Some False \<rparr>] \<and>
   jobId (session sample_session) = Some (lit ''job-123'')"
    using v
    by (simp add: session_def sample_session_def initial_def onDrop_def toast_def
        handleProcess_def setPrompt_def handleProcess_request_def processDocument_def client_def
        answering_def or_else_def truthy_def t n Let_def)
  have b: "file_size large_file > 52428800" by (simp add: large_file_def)
  show ?thesis
    using rejected_before_network [OF a, of "lit ''a1''" "[]" initial sample_session] b s
    by (simp add: redact_not_upload)
qed

section \<open>Properties of the Job Poller\<close>

text \<open>
  C2 (what the code does). Handed a snapshot, the callback of \<open>useJobStatus\<close> answers
  \<open>false\<close> exactly for \<open>completed\<close> and \<open>failed\<close>; handed the Query object, as the
  library hands it, it answers 2000 whatever the snapshot is. So while a job id is polled,
  every status response arms the timer of the next query with the delay of 2000 ms, also one
  that reports \<open>completed\<close> or \<open>failed\<close>: the poller moves to Succeeded or Failed, and
  when the timer fires the next status query for the same job id is sent.
\<close>

theorem completed_keeps_polling:
  assumes "options p = useJobStatus jid en" and "enabled (options p)" and "fetching p"
  shows "(refetchInterval (options p) (Snapshot (Some d)) = None \<longleftrightarrow>
            status d = completed \<or> status d = failed) \<and>
         refetchInterval (options p) (QueryObject x) = Some 2000 \<and>
         timer (step p (Response (Inr d))) = Some 2000 \<and>
         issued (step p (Response (Inr d))) = issued p \<and>
         snapshot (step p (Response (Inr d))) = Some d \<and>
         (status d = completed \<longrightarrow> phase (step p (Response (Inr d))) = Succeeded) \<and>
         (status d = failed \<longrightarrow>
            phase (step p (Response (Inr d))) = Failed (JobFailed (error d))) \<and>
         issued (step (step p (Response (Inr d))) TimerFired) =
           issued p @ [queryFn (options p)]"
proof -
  let ?q = "step p (Response (Inr d))"
  have q: "?q = onSuccess p d" using assms by simp
  have o: "refetchInterval (options p) = jobStatus_refetchInterval"
    using assms(1) by (simp add: useJobStatus_simps)
  have t: "timer ?q = Some 2000"
    unfolding q using assms(2)
    by (simp add: onSuccess_def Let_def arm_simps o callback_on_query_object)
  have i: "issued ?q = issued p" "\<not> fetching ?q" "options ?q = options p"
    unfolding q using assms(2) by (simp_all add: onSuccess_def Let_def arm_simps)
  have s: "snapshot ?q = Some d"
    unfolding q using assms(2)
    by (simp add: onSuccess_def Let_def arm_simps) (simp add: snapshot_def)
  have ph: "status d = completed \<longrightarrow> phase ?q = Succeeded"
       "status d = failed \<longrightarrow> phase ?q = Failed (JobFailed (error d))"
    unfolding q using assms(2) by (auto simp: onSuccess_def Let_def arm_simps)
  have fire: "issued (step ?q TimerFired) = issued p @ [queryFn (options p)]"
    using assms(2) t i by (simp add: fetch_def)
  have c: "refetchInterval (options p) (Snapshot (Some d)) = None \<longleftrightarrow>
             status d = completed \<or> status d = failed"
    by (simp add: o callback_on_snapshot)
  have c': "refetchInterval (options p) (QueryObject x) = Some 2000"
    by (simp add: o callback_on_query_object)
  show ?thesis using c c' t i(1) s ph fire by blast
qed

theorem completed_keeps_polling_witness:
  "options polling_job_123 = useJobStatus (Some (lit ''job-123'')) True \<and>
   enabled (options polling_job_123) \<and> fetching polling_job_123 \<and>
   status completed_response = completed \<and>
   jobStatus_refetchInterval (Snapshot (Some completed_response)) = None \<and>
   phase (step polling_job_123 (Response (Inr completed_response))) = Succeeded \<and>
   timer (step polling_job_123 (Response (Inr completed_response))) = Some 2000 \<and>
   issued (step polling_job_123 (Response (Inr completed_response)))
     = [getJobStatus_request (lit ''job-123'')] \<and>
   issued (step (step polling_job_123 (Response (Inr completed_response))) TimerFired)
     = [getJobStatus_request (lit ''job-123''), getJobStatus_request (lit ''job-123'')]"
proof -
  note h = polling_job_123_simps(1,2,3)
  have s: "status completed_response = completed"
    by (simp add: completed_response_def)
  have f: "queryFn (options polling_job_123) = getJobStatus_request (lit ''job-123'')"
          "refetchInterval (options polling_job_123) = jobStatus_refetchInterval"
    by (simp_all add: polling_job_123_simps(1) useJobStatus_def)
  note r = completed_keeps_polling [OF h, of completed_response]
  have 1: "jobStatus_refetchInterval (Snapshot (Some completed_response)) = None"
    using r s unfolding f by blast
  have 2: "phase (step polling_job_123 (Response (Inr completed_response))) = Succeeded"
          "timer (step polling_job_123 (Response (Inr completed_response))) = Some 2000"
    using r s by blast+
  have 3: "issued (step polling_job_123 (Response (Inr completed_response)))
             = [getJobStatus_request (lit ''job-123'')]"
    using r polling_job_123_simps(6) by metis
  have "issued (step (step polling_job_123 (Response (Inr completed_response))) TimerFired)
          = issued polling_job_123 @ [queryFn (options polling_job_123)]"
    using r by blast
  then have 4: "issued (step (step polling_job_123 (Response (Inr completed_response)))
                          TimerFired)
     = [getJobStatus_request (lit ''job-123''), getJobStatus_request (lit ''job-123'')]"
    unfolding f by (simp add: polling_job_123_simps(6))
  show ?thesis using h s 1 2 3 4 by blast
qed

text \<open>
  C5 (amended). A status query that fails at the transport level is sent again up to 3
  times: the first three consecutive failures each send the query once more and leave the
  poller polling (a response in between starts the count again). The 4th consecutive
  failure (the original query and its 3 retries) sends nothing further; the poller moves to
  Failed and reports the transport error of that last attempt.
\<close>

theorem retry_budget:
  assumes "options p = useJobStatus jid en" and "fetching p" and "failureCount p = 0"
  shows "retry (options p) = 3 \<and>
         failureCount (step p (Response (Inr d))) = 0 \<and>
         (let p1 = step p (Response (Inl e1));
              p2 = step p1 (Response (Inl e2));
              p3 = step p2 (Response (Inl e3));
              p4 = step p3 (Response (Inl e4))
          in issued p1 = issued p @ [queryFn (options p)] \<and>
             issued p2 = issued p1 @ [queryFn (options p)] \<and>
             issued p3 = issued p2 @ [queryFn (options p)] \<and>
             fetching p1 \<and> fetching p2 \<and> fetching p3 \<and>
             phase p1 = phase p \<and> phase p2 = phase p \<and> phase p3 = phase p \<and>
             issued p4 = issued p3 \<and> \<not> fetching p4 \<and>
             (enabled (options p) \<longrightarrow> phase p4 = Failed (RetriesExhausted e4)))"
  using assms
  by (simp add: Let_def onError_def onSuccess_def arm_simps useJobStatus_simps)

theorem retry_budget_witness:
  "options polling_job_123 = useJobStatus (Some (lit ''job-123'')) True \<and>
   fetching polling_job_123 \<and> failureCount polling_job_123 = 0 \<and>
   enabled (options polling_job_123) \<and>
   phase (step (step (step (step polling_job_123 (Response (Inl (onRejected network_error))))
                       (Response (Inl (onRejected network_error))))
                 (Response (Inl (onRejected network_error))))
           (Response (Inl (onRejected bad_gateway_error))))
     = Failed (RetriesExhausted (onRejected bad_gateway_error)) \<and>
   length (issued
     (step (step (step (step polling_job_123 (Response (Inl (onRejected network_error))))
                   (Response (Inl (onRejected network_error))))
             (Response (Inl (onRejected network_error))))
       (Response (Inl (onRejected bad_gateway_error))))) = 4"
proof -
  note h = polling_job_123_simps(1,3,4)
  let ?p1 = "step polling_job_123 (Response (Inl (onRejected network_error)))"
  let ?p2 = "step ?p1 (Response (Inl (onRejected network_error)))"
  let ?p3 = "step ?p2 (Response (Inl (onRejected network_error)))"
  let ?p4 = "step ?p3 (Response (Inl (onRejected bad_gateway_error)))"
  note r = retry_budget [OF h, of _ "onRejected network_error" "onRejected network_error"
                           "onRejected network_error" "onRejected bad_gateway_error",
                         unfolded Let_def]
  have 1: "phase ?p4 = Failed (RetriesExhausted (onRejected bad_gateway_error))"
    using r polling_job_123_simps(2) by blast
  have "issued ?p4 = ((issued polling_job_123 @ [queryFn (options polling_job_123)])
                        @ [queryFn (options polling_job_123)])
                        @ [queryFn (options polling_job_123)]"
    using r by metis
  then have 2: "length (issued ?p4) = 4"
    by (simp add: polling_job_123_simps(6))
  show ?thesis using h polling_job_123_simps(2) 1 2 by blast
qed

theorem third_failure_counterexample:
  "phase (run polling_job_123 [query_failure, query_failure, query_failure] ) = Polling \<and>
   fetching (run polling_job_123 [query_failure, query_failure, query_failure]) \<and>
   length (issued (run polling_job_123 [query_failure, query_failure, query_failure])) = 4 \<and>
   phase (run polling_job_123
            [query_failure, query_failure, query_failure, Response (Inr completed_response)])
     = Succeeded"
  by (simp add: run_def query_failure_def polling_job_123_simps onError_def onSuccess_def
      arm_simps useJobStatus_simps Let_def completed_response_def truthy_def lit_def)

text \<open>
  C8 (amended). The query is enabled exactly when the caller's flag is on and the job id is
  present (neither \<open>null\<close> nor the empty string). When the hook is mounted without that,
  whatever events follow, no status query is sent and the poller stays Idle. At any time in
  the life of the hook, while the job id is absent the poller is Idle and no event sends a
  status query. Switching the flag off for a job leaves the snapshot of that job as it was
  and clears the timer of the next query: the poller is Idle and stays so, the snapshot is
  never discarded, and no new query is started; but a query in flight at that moment is
  still sent again when it fails, within its budget of 3 retries, and with none in flight
  nothing at all is sent.
\<close>

theorem not_polling:
  "(enabled (useJobStatus jid en) \<longleftrightarrow> en \<and> jid \<noteq> None \<and> jid \<noteq> Some []) \<and>
   (jid = None \<or> jid = Some [] \<or> \<not> en \<longrightarrow>
      issued (run (mount (useJobStatus jid en)) evs) = [] \<and>
      phase (run (mount (useJobStatus jid en)) evs) = Idle \<and>
      \<not> fetching (run (mount (useJobStatus jid en)) evs)) \<and>
   (\<not> truthy (queryKey (options (hook_run j0 e0 hs))) \<longrightarrow>
      step (hook_run j0 e0 hs) ev = hook_run j0 e0 hs \<and>
      phase (hook_run j0 e0 hs) = Idle) \<and>
   (let p' = setOptions p (useJobStatus (queryKey (options p)) False)
    in snapshot p' = snapshot p \<and> timer p' = None \<and> phase p' = Idle \<and>
       issued p' = issued p \<and> step p' TimerFired = p' \<and>
       (\<not> fetching p \<longrightarrow> run p' evs = p') \<and>
       phase (run p' evs) = Idle \<and> timer (run p' evs) = None \<and>
       (snapshot p \<noteq> None \<longrightarrow> snapshot (run p' evs) \<noteq> None) \<and>
       length (issued (run p' evs))
         \<le> length (issued p) + (if fetching p then 3 - failureCount p else 0))"
proof -
  have a: "\<not> enabled (useJobStatus jid en)" if "jid = None \<or> jid = Some [] \<or> \<not> en"
    using that by (auto simp: useJobStatus_simps truthy_def)
  have b: "run (mount (useJobStatus jid en)) evs = mount (useJobStatus jid en)"
       "issued (mount (useJobStatus jid en)) = []" "phase (mount (useJobStatus jid en)) = Idle"
       "\<not> fetching (mount (useJobStatus jid en))"
    if "jid = None \<or> jid = Some [] \<or> \<not> en"
    using a [OF that] by (simp_all add: mount_def Let_def run_quiescent)
  have g: "\<not> truthy (queryKey (options (hook_run j0 e0 hs))) \<longrightarrow>
      step (hook_run j0 e0 hs) ev = hook_run j0 e0 hs \<and>
      phase (hook_run j0 e0 hs) = Idle"
    using absent_id_idle [OF hooked_hook_run] by blast
  let ?p' = "setOptions p (useJobStatus (queryKey (options p)) False)"
  have c: "snapshot ?p' = snapshot p" "timer ?p' = None" "phase ?p' = Idle"
       "issued ?p' = issued p" "fetching ?p' = fetching p" "\<not> enabled (options ?p')"
       "retry (options ?p') = 3" "failureCount ?p' = failureCount p"
    by (simp_all add: setOptions_def Let_def useJobStatus_simps snapshot_def)
  have d: "step ?p' TimerFired = ?p'" using c(2) by simp
  have e: "\<not> fetching p \<longrightarrow> run ?p' evs = ?p'" using c by (simp add: run_quiescent)
  note r = off_run [OF c(6) c(2), of evs]
  have k: "phase (run ?p' evs) = Idle" "timer (run ?p' evs) = None"
    using r c(3) by simp_all
  have s: "snapshot p \<noteq> None \<longrightarrow> snapshot (run ?p' evs) \<noteq> None"
    using snapshot_run [of ?p' evs] c(1) by simp
  have u: "budget ?p' = (if fetching p then 3 - failureCount p else 0)"
    unfolding budget_def c(5) c(7) c(8) by (rule refl)
  have "length (issued (run ?p' evs)) \<le> length (issued ?p') + budget ?p'"
    using r by simp
  then have l: "length (issued (run ?p' evs))
                  \<le> length (issued p) + (if fetching p then 3 - failureCount p else 0)"
    unfolding u c(4) .
  have f: "enabled (useJobStatus jid en) \<longleftrightarrow> en \<and> jid \<noteq> None \<and> jid \<noteq> Some []"
    by (cases jid) (simp_all add: useJobStatus_simps truthy_def)
  show ?thesis using b c(1-4) d e g k s l unfolding f by (simp add: Let_def)
qed

theorem not_polling_witness:
  "issued (run (mount (useJobStatus None True))
             [TimerFired, Response (Inr completed_response)]) = [] \<and>
   phase (run (mount (useJobStatus None True))
            [TimerFired, Response (Inr completed_response)]) = Idle \<and>
   issued (run (mount (useJobStatus (Some (lit ''job-123'')) False))
             [TimerFired, Response (Inr completed_response)]) = [] \<and>
   phase (run (mount (useJobStatus (Some (lit ''job-123'')) False))
            [TimerFired, Response (Inr completed_response)]) = Idle \<and>
   queryKey (options (hook_run (Some (lit ''job-123'')) True [Render None True])) = None \<and>
   step (hook_run (Some (lit ''job-123'')) True [Render None True]) query_failure
     = hook_run (Some (lit ''job-123'')) True [Render None True] \<and>
   phase (hook_run (Some (lit ''job-123'')) True [Render None True]) = Idle \<and>
   \<not> fetching (step polling_job_123 (Response (Inr processing_response))) \<and>
   snapshot (setOptions (step polling_job_123 (Response (Inr processing_response)))
               (useJobStatus (Some (lit ''job-123'')) False)) = Some processing_response \<and>
   issued (run (setOptions (step polling_job_123 (Response (Inr processing_response)))
                  (useJobStatus (Some (lit ''job-123'')) False))
             [TimerFired, TimerFired])
     = [getJobStatus_request (lit ''job-123'')] \<and>
   fetching polling_job_123 \<and>
   length (issued (run disabled_in_flight
                     [query_failure, query_failure, query_failure, query_failure,
                      query_failure, TimerFired])) \<le> 4"
proof -
  let ?evs = "[TimerFired, Response (Inr completed_response)]"
  let ?p = "step polling_job_123 (Response (Inr processing_response))"
  let ?h = "hook_run (Some (lit ''job-123'')) True [Render None True]"
  have p: "\<not> fetching ?p" "queryKey (options ?p) = Some (lit ''job-123'')"
          "snapshot ?p = Some processing_response"
          "issued ?p = [getJobStatus_request (lit ''job-123'')]"
    by (simp_all add: polling_job_123_simps onSuccess_def Let_def useJobStatus_simps arm_simps)
       (simp add: snapshot_def useJobStatus_simps polling_job_123_simps)
  have 1: "issued (run (mount (useJobStatus None True)) ?evs) = []"
          "phase (run (mount (useJobStatus None True)) ?evs) = Idle"
    using not_polling [of None True ?evs] by simp_all
  have 2: "issued (run (mount (useJobStatus (Some (lit ''job-123'')) False)) ?evs) = []"
          "phase (run (mount (useJobStatus (Some (lit ''job-123'')) False)) ?evs) = Idle"
    using not_polling [of "Some (lit ''job-123'')" False ?evs] by simp_all
  have 3: "snapshot (setOptions ?p (useJobStatus (Some (lit ''job-123'')) False))
             = Some processing_response"
          "issued (run (setOptions ?p (useJobStatus (Some (lit ''job-123'')) False))
                     [TimerFired, TimerFired])
             = [getJobStatus_request (lit ''job-123'')]"
    using not_polling [where p = ?p and evs = "[TimerFired, TimerFired]"] p
    by (simp_all add: Let_def)
  have k: "queryKey (options ?h) = None"
    by (simp add: hook_run_def setOptions_def Let_def useJobStatus_simps truthy_def)
  then have "\<not> truthy (queryKey (options ?h))" by (simp add: truthy_def)
  then have 4: "step ?h query_failure = ?h" "phase ?h = Idle"
    using not_polling [where ?j0.0 = "Some (lit ''job-123'')" and ?e0.0 = True
                        and hs = "[Render None True]" and ev = query_failure]
    by blast+
  have q: "queryKey (options polling_job_123) = Some (lit ''job-123'')"
    by (simp add: polling_job_123_simps(1) useJobStatus_simps)
  have "length (issued (run disabled_in_flight
                     [query_failure, query_failure, query_failure, query_failure,
                      query_failure, TimerFired]))
          \<le> length (issued polling_job_123)
              + (if fetching polling_job_123 then 3 - failureCount polling_job_123 else 0)"
    using not_polling [where p = polling_job_123
                        and evs = "[query_failure, query_failure, query_failure, query_failure,
                                    query_failure, TimerFired]"]
    unfolding q disabled_in_flight_def Let_def by blast
  then have 5: "length (issued (run disabled_in_flight
                     [query_failure, query_failure, query_failure, query_failure,
                      query_failure, TimerFired])) \<le> 4"
    by (simp add: polling_job_123_simps)
  show ?thesis using 1 2 3 4 5 k p(1) polling_job_123_simps(3) by blast
qed

theorem disabled_in_flight_counterexample:
  "enabled (options disabled_in_flight) = False \<and>
   phase disabled_in_flight = Idle \<and>
   issued disabled_in_flight = [getJobStatus_request (lit ''job-123'')] \<and>
   issued (run disabled_in_flight [query_failure])
     = [getJobStatus_request (lit ''job-123''), getJobStatus_request (lit ''job-123'')] \<and>
   phase (run disabled_in_flight [query_failure]) = Idle"
  by (simp add: disabled_in_flight_def setOptions_def Let_def useJobStatus_simps
      polling_job_123_simps run_def query_failure_def onError_def)
     (simp add: useJobStatus_def)

section \<open>Properties of the Prompt Analyzer\<close>

text \<open>
  C4 (amended). No analysis call is ever issued for a text whose trimmed length is at
  most 3, and a settled text that short leaves the analysis received before, and the call
  pending, as they are; a change of the input by itself neither calls nor discards. The
  preview keeps showing what it showed while the input goes from one text that is not blank
  to another, and it is hidden as soon as the input is blank. Mounted on the empty prompt,
  the input issues no call; after mounting, a call is issued only when the timer expires,
  500 ms or more after the value last changed, for the value then current, whose trimmed
  length exceeds 3.
\<close>

theorem prompt_analyzer_calls:
  "(\<forall>p \<in> set (calls (nli_run v0 evs)). 3 < length (trim p)) \<and>
   (length (trim v) \<le> 3 \<and> handler s = Some (left, v) \<longrightarrow>
      calls (nli_step s (Elapse dt)) = calls s \<and>
      analysis (nli_step s (Elapse dt)) = analysis s \<and>
      pending (nli_step s (Elapse dt)) = pending s \<and>
      preview (nli_step s (Elapse dt)) = preview s) \<and>
   calls (nli_step s (Change v)) = calls s \<and>
   analysis (nli_step s (Change v)) = analysis s \<and>
   pending (nli_step s (Change v)) = pending s \<and>
   (trim v \<noteq> [] \<and> trim (nli_value s) \<noteq> [] \<longrightarrow>
      preview (nli_step s (Change v)) = preview s) \<and>
   (trim v = [] \<longrightarrow> preview (nli_step s (Change v)) = Hidden) \<and>
   calls (nli_mount []) = [] \<and>
   (calls (nli_step (nli_run v0 evs) ev) \<noteq> calls (nli_run v0 evs) \<longrightarrow>
      (\<exists>t. ev = Elapse t) \<and>
      calls (nli_step (nli_run v0 evs) ev)
        = calls (nli_run v0 evs) @ [nli_value (nli_run v0 evs)] \<and>
      500 \<le> quiet (nli_step (nli_run v0 evs) ev) \<and>
      3 < length (trim (nli_value (nli_run v0 evs))))"
proof -
  have 1: "\<forall>p \<in> set (calls (nli_run v0 evs)). 3 < length (trim p)"
    using debounced_run [of v0 evs] by (simp add: debounced_def)
  have 2: "length (trim v) \<le> 3 \<and> handler s = Some (left, v) \<longrightarrow>
      calls (nli_step s (Elapse dt)) = calls s \<and>
      analysis (nli_step s (Elapse dt)) = analysis s \<and>
      pending (nli_step s (Elapse dt)) = pending s \<and>
      preview (nli_step s (Elapse dt)) = preview s"
    by (auto simp: analyse_effect_def Let_def preview_def)
  have 3: "calls (nli_step s (Change v)) = calls s \<and>
           analysis (nli_step s (Change v)) = analysis s \<and>
           pending (nli_step s (Change v)) = pending s"
    by simp
  have 4: "trim v \<noteq> [] \<and> trim (nli_value s) \<noteq> [] \<longrightarrow>
             preview (nli_step s (Change v)) = preview s"
    by (simp add: preview_def EntityDetectionPreview_def)
  have 5: "trim v = [] \<longrightarrow> preview (nli_step s (Change v)) = Hidden"
    by (auto simp: preview_def EntityDetectionPreview_def)
  have 6: "calls (nli_mount []) = []"
    by (simp add: nli_mount_def analyse_effect_def trim_def)
  have 7: "calls (nli_step (nli_run v0 evs) ev) \<noteq> calls (nli_run v0 evs) \<longrightarrow>
      (\<exists>t. ev = Elapse t) \<and>
      calls (nli_step (nli_run v0 evs) ev)
        = calls (nli_run v0 evs) @ [nli_value (nli_run v0 evs)] \<and>
      500 \<le> quiet (nli_step (nli_run v0 evs) ev) \<and>
      3 < length (trim (nli_value (nli_run v0 evs)))"
    using call_only_on_expiry [OF debounced_run] by blast
  from 1 2 3 4 5 6 7 show ?thesis by blast
qed

theorem prompt_analyzer_calls_witness:
  "calls (nli_run [] [Change (lit ''SSN''), Elapse 500]) = [] \<and>
   calls (nli_run [] [Change (lit ''SSN only''), Elapse 300]) = [] \<and>
   calls (nli_step (nli_run [] [Change (lit ''SSN only''), Elapse 300]) (Elapse 200))
     = [lit ''SSN only''] \<and>
   500 \<le> quiet (nli_step (nli_run [] [Change (lit ''SSN only''), Elapse 300]) (Elapse 200)) \<and>
   3 < length (trim (lit ''SSN only'')) \<and>
   preview analysed_input = Showing sample_analysis \<and>
   handler (nli_step analysed_input (Change (lit ''SSN''))) = Some (500, lit ''SSN'') \<and>
   preview (nli_step analysed_input (Change (lit ''SSN''))) = Showing sample_analysis \<and>
   preview (nli_step (nli_step analysed_input (Change (lit ''SSN''))) (Elapse 500))
     = Showing sample_analysis \<and>
   analysis (nli_step (nli_step analysed_input (Change (lit ''SSN''))) (Elapse 500))
     = Some sample_analysis \<and>
   calls (nli_step (nli_step analysed_input (Change (lit ''SSN''))) (Elapse 500))
     = [lit ''Redact SSN only'']"
proof -
  have t: "trim [] = []" "trim (lit ''SSN'') = lit ''SSN''"
          "trim (lit ''SSN only'') = lit ''SSN only''"
          "trim (lit ''Redact SSN only'') = lit ''Redact SSN only''"
    by (simp_all add: trim_def isWhiteSpace_def lit_def)
  have l: "length (lit ''SSN'') = 3" "length (lit ''SSN only'') = 8"
          "length (lit ''Redact SSN only'') = 15"
          "lit ''SSN'' \<noteq> []" "lit ''SSN only'' \<noteq> []" "lit ''Redact SSN only'' \<noteq> []"
          "lit ''SSN'' \<noteq> lit ''Redact SSN only''"
    by (simp_all add: lit_def)
  have g: "analysis analysed_input = Some sample_analysis" "\<not> pending analysed_input"
          "nli_value analysed_input = lit ''Redact SSN only''"
          "calls analysed_input = [lit ''Redact SSN only'']"
    by (simp_all add: analysed_input_def nli_run_def nli_mount_def analyse_effect_def Let_def
        t l)
  have pv: "preview analysed_input = Showing sample_analysis"
    by (simp add: preview_def EntityDetectionPreview_def g t l)
  let ?u = "nli_step analysed_input (Change (lit ''SSN''))"
  have h: "handler ?u = Some (500, lit ''SSN'')"
    using l(7) by (simp add: g)
  have pu: "preview ?u = Showing sample_analysis"
    using prompt_analyzer_calls [where s = analysed_input and v = "lit ''SSN''"] t l g(3) pv
    by simp
  have sh: "length (trim (lit ''SSN'')) \<le> 3" by (simp add: t l)
  note r = prompt_analyzer_calls [where s = ?u and v = "lit ''SSN''" and left = 500 and dt = 500]
  have e1: "preview (nli_step ?u (Elapse 500)) = Showing sample_analysis"
    using r h sh pu by simp
  have "analysis ?u = Some sample_analysis" "calls ?u = [lit ''Redact SSN only'']"
    by (simp_all add: g)
  then have e2: "analysis (nli_step ?u (Elapse 500)) = Some sample_analysis"
                "calls (nli_step ?u (Elapse 500)) = [lit ''Redact SSN only'']"
    using r h sh by simp_all
  let ?s = "nli_run [] [Change (lit ''SSN only''), Elapse 300]"
  have a: "calls (nli_run [] [Change (lit ''SSN''), Elapse 500]) = []"
    by (simp add: nli_run_def nli_mount_def analyse_effect_def Let_def t l)
  have b: "calls ?s = []" "nli_value ?s = lit ''SSN only''"
    by (simp_all add: nli_run_def nli_mount_def analyse_effect_def Let_def t l)
  have c: "calls (nli_step ?s (Elapse 200)) = [lit ''SSN only'']"
    by (simp add: nli_run_def nli_mount_def analyse_effect_def Let_def t l)
  have d: "calls (nli_step ?s (Elapse 200)) \<noteq> calls ?s"
    unfolding b c by simp
  have e: "500 \<le> quiet (nli_step ?s (Elapse 200))"
    using prompt_analyzer_calls
            [where ?v0.0 = "[]" and evs = "[Change (lit ''SSN only''), Elapse 300]"
               and ev = "Elapse 200"] d
    by blast
  have f: "3 < length (trim (lit ''SSN only''))" by (simp add: t l)
  show ?thesis using a b(1) c e f pv h pu e1 e2 by blast
qed

theorem blank_input_counterexample:
  "preview analysed_input = Showing sample_analysis \<and>
   length (trim []) = 0 \<and>
   preview (nli_step analysed_input (Change [])) = Hidden \<and>
   analysis (nli_step analysed_input (Change [])) = Some sample_analysis \<and>
   calls (nli_step analysed_input (Change [])) = [lit ''Redact SSN only'']"
  by (simp add: analysed_input_def nli_run_def nli_mount_def analyse_effect_def Let_def
      preview_def EntityDetectionPreview_def trim_def isWhiteSpace_def lit_def)


end
